theory Spec2Isabelle
  imports Complex_Main
begin


section \<open>Python strings\<close>

text \<open>
  A Python \<^verbatim>\<open>str\<close> is modelled as a \<^typ>\<open>string\<close> holding its UTF-8 bytes. A code
  point beyond ASCII is written byte by byte (\<open>CHR 0xC3, CHR 0xA9\<close> is e-acute). Equality
  and the substring test \<^verbatim>\<open>k in s\<close> agree on bytes and on code points, because UTF-8 is
  self-synchronising.

  \<^verbatim>\<open>str.lower()\<close> is modelled for ASCII and for the capital letters of Latin-1
  (U+00C0 to U+00DE, but the multiplication sign U+00D7), which is what Portuguese text
  uses; Python lower-cases further scripts as well. \<^verbatim>\<open>str.split()\<close> is modelled for the
  ASCII white space (bytes 9 to 13, 28 to 31 and 32); Python also splits at the other
  white-space code points of Unicode. The theorems below speak about the lower-cased
  text and the split words through these two functions and do not depend on how far
  the two tables reach.
\<close>

definition lower_ascii :: "char \<Rightarrow> char" where
  "lower_ascii c =
     (let n = (of_char c :: nat)
      in if 65 \<le> n \<and> n \<le> 90 then char_of (n + 32) else c)"

definition is_latin1_upper :: "char \<Rightarrow> bool" where
  "is_latin1_upper d =
     (let n = (of_char d :: nat)
      in 128 \<le> n \<and> n \<le> 158 \<and> n \<noteq> 151)"

fun py_lower :: "string \<Rightarrow> string" where
  "py_lower [] = []"
| "py_lower [c] = [lower_ascii c]"
| "py_lower (c # d # cs) =
     (if c = CHR 0xC3 \<and> is_latin1_upper d
      then c # char_of ((of_char d :: nat) + 32) # py_lower cs
      else lower_ascii c # py_lower (d # cs))"

definition is_space :: "char \<Rightarrow> bool" where
  "is_space c =
     (let n = (of_char c :: nat)
      in (9 \<le> n \<and> n \<le> 13) \<or> (28 \<le> n \<and> n \<le> 32))"

text \<open>\<^verbatim>\<open>s.split()\<close>: the maximal runs of characters that are not white space. The first
  argument collects the current word, reversed.\<close>

fun split_acc :: "string \<Rightarrow> string \<Rightarrow> string list" where
  "split_acc w [] = (if w = [] then [] else [rev w])"
| "split_acc w (c # cs) =
     (if is_space c
      then (if w = [] then split_acc [] cs else rev w # split_acc [] cs)
      else split_acc (c # w) cs)"

definition py_split :: "string \<Rightarrow> string list" where
  "py_split s = split_acc [] s"

text \<open>\<open>contains s k\<close> is Python's \<^verbatim>\<open>k in s\<close> on strings: \<open>k\<close> occurs in \<open>s\<close> as a
  contiguous block.\<close>

fun contains :: "string \<Rightarrow> string \<Rightarrow> bool" where
  "contains [] k = (k = [])"
| "contains (c # cs) k = (take (length k) (c # cs) = k \<or> contains cs k)"

section \<open>Intent analysis by rules\<close>

text \<open>
  The result of an intent analysis is a Python dict. The rule-based analysis fills six
  keys; the result returned after an internal error has two of them; the reply of the
  completion backend is read as an object of the same six keys, each of which may be
  missing. A missing key is \<open>None\<close>. Python floats are modelled as rationals: the
  scores are quotients of integers below seven, on which float division, comparison
  with each other and comparison with \<^verbatim>\<open>0.2\<close> agree with the rationals.
\<close>

record intent_analysis =
  intent :: "string option"
  confidence :: "rat option"
  secondary_intents :: "string list option"
  keywords_found :: "string list option"
  urgency_level :: "string option"
  requires_personalization :: "bool option"

text \<open>The table \<^verbatim>\<open>intent_keywords\<close> of \<^verbatim>\<open>_rule_based_intent_analysis\<close>, in the order the
  source writes it (a Python dict keeps insertion order).\<close>

definition intent_keywords :: "(string \<times> string list) list" where
  "intent_keywords =
  [(''workout_request'',
     [''treino'',
      ''exerc'' @ [CHR 0xC3, CHR 0xAD] @ ''cio'',
      ''workout'',
      ''s'' @ [CHR 0xC3, CHR 0xA9] @ ''rie'',
      ''repeti'' @ [CHR 0xC3, CHR 0xA7, CHR 0xC3, CHR 0xA3] @ ''o'',
      ''treinar'']),
   (''technique_question'',
     [''como'',
      ''t'' @ [CHR 0xC3, CHR 0xA9] @ ''cnica'',
      ''forma'',
      ''postura'',
      ''execu'' @ [CHR 0xC3, CHR 0xA7, CHR 0xC3, CHR 0xA3] @ ''o'',
      ''executar'']),
   (''nutrition_advice'',
     [''alimenta'' @ [CHR 0xC3, CHR 0xA7, CHR 0xC3, CHR 0xA3] @ ''o'',
      ''dieta'',
      ''nutri'' @ [CHR 0xC3, CHR 0xA7, CHR 0xC3, CHR 0xA3] @ ''o'',
      ''prote'' @ [CHR 0xC3, CHR 0xAD] @ ''na'',
      ''comer'',
      ''comida'']),
   (''progress_inquiry'',
     [''progresso'',
      ''resultado'',
      ''evolu'' @ [CHR 0xC3, CHR 0xA7, CHR 0xC3, CHR 0xA3] @ ''o'',
      ''melhora'',
      ''crescimento'']),
   (''motivation_need'',
     [''motiva'' @ [CHR 0xC3, CHR 0xA7, CHR 0xC3, CHR 0xA3] @ ''o'',
      ''des'' @ [CHR 0xC3, CHR 0xA2] @ ''nimo'',
      ''pregui'' @ [CHR 0xC3, CHR 0xA7] @ ''a'',
      ''for'' @ [CHR 0xC3, CHR 0xA7] @ ''a'',
      ''conseguir'']),
   (''equipment_question'',
     [''equipamento'',
      ''aparelho'',
      ''peso'',
      ''halteres'',
      ''academia'']),
   (''injury_concern'',
     [''dor'',
      ''les'' @ [CHR 0xC3, CHR 0xA3] @ ''o'',
      ''machuca'',
      ''problema'',
      ''desconforto'']),
   (''schedule_planning'',
     [''rotina'',
      ''hor'' @ [CHR 0xC3, CHR 0xA1] @ ''rio'',
      ''frequ'' @ [CHR 0xC3, CHR 0xAA] @ ''ncia'',
      ''quando'',
      ''quantas vezes''])]"

text \<open>\<^verbatim>\<open>sum([1 for keyword in keywords if keyword in message_lower])\<close>\<close>

definition keyword_hits :: "string list \<Rightarrow> string \<Rightarrow> nat" where
  "keyword_hits kws message_lower = length (filter (contains message_lower) kws)"

text \<open>The dict \<^verbatim>\<open>intent_scores\<close>: one entry, in table order, for every intent with at
  least one keyword in the text; its score is hits divided by the number of keywords.\<close>

definition intent_scores :: "string \<Rightarrow> (string \<times> rat) list" where
  "intent_scores message_lower =
     map (\<lambda>(name, kws). (name, of_nat (keyword_hits kws message_lower) / of_nat (length kws)))
       (filter (\<lambda>(name, kws). 0 < keyword_hits kws message_lower) intent_keywords)"

text \<open>\<^verbatim>\<open>max(intent_scores, key=intent_scores.get)\<close>: Python's \<^verbatim>\<open>max\<close> walks the dict in
  order and replaces the best entry so far only by a strictly greater one.\<close>

fun max_by_score :: "string \<times> rat \<Rightarrow> (string \<times> rat) list \<Rightarrow> string \<times> rat" where
  "max_by_score best [] = best"
| "max_by_score best (x # xs) = max_by_score (if snd best < snd x then x else best) xs"

definition urgency_words :: "string list" where
  "urgency_words = [''dor'', ''les'' @ [CHR 0xC3, CHR 0xA3] @ ''o'', ''urgente'']"

definition rule_based_intent_analysis :: "string \<Rightarrow> intent_analysis" where
  "rule_based_intent_analysis message =
     (let message_lower = py_lower message;
          scores = intent_scores message_lower;
          main = (case scores of
                    [] \<Rightarrow> (''general_question'', 1 / 2)
                  | x # xs \<Rightarrow> max_by_score x xs)
      in \<lparr> intent = Some (fst main),
           confidence = Some (snd main),
           secondary_intents =
             Some (map fst (filter (\<lambda>(name, score). name \<noteq> fst main \<and> 1 / 5 < score) scores)),
           keywords_found =
             Some (filter (\<lambda>word. list_ex (\<lambda>(name, kws). word \<in> set kws) intent_keywords)
                     (py_split message_lower)),
           urgency_level =
             Some (if list_ex (contains message_lower) urgency_words then ''high'' else ''medium''),
           requires_personalization = Some True \<rparr>)"

section \<open>Values, stored records and the world\<close>

text \<open>
  The values the service puts into its result dicts and into the JSON field of a context
  record. A Python dict is an association list in insertion order; \<^verbatim>\<open>d.get(k)\<close> is
  \<open>map_of d k\<close>. Floats are rationals.
\<close>

datatype pyval =
    PNone
  | PBool bool
  | PInt int
  | PFloat rat
  | PStr string
  | PList "pyval list"
  | PDict "(string \<times> pyval) list"

type_synonym pydict = "(string \<times> pyval) list"

definition dict_get :: "pydict \<Rightarrow> string \<Rightarrow> pyval option" where
  "dict_get d k = map_of d k"

text \<open>An optional string as a Python value: \<^verbatim>\<open>None\<close> or the string.\<close>

definition opt_str :: "string option \<Rightarrow> pyval" where
  "opt_str s = (case s of None \<Rightarrow> PNone | Some x \<Rightarrow> PStr x)"

text \<open>Modelled from the spec: the records of \<^verbatim>\<open>models.py\<close> (Conversation, Message,
  ChatContext), which is not among the sources; the fields are those of section 3 of the
  specification and those the service reads and writes. Times are whole microseconds,
  the resolution of a Python \<^verbatim>\<open>datetime\<close>. A user is the row of Django's \<^verbatim>\<open>User\<close> as far
  as the service reads it.\<close>

record user =
  user_id :: nat
  first_name :: string

record conversation =
  conv_id :: nat
  conv_user :: user
  conversation_type :: string
  status :: string
  created_at :: int
  ai_model_used :: string
  user_satisfaction_rating :: "rat option"

record message =
  msg_id :: nat
  msg_conversation :: nat
  message_type :: string
  content :: string
  msg_status :: string
  confidence_score :: "rat option"
  ai_model_version :: "string option"
  response_time_ms :: "rat option"
  tokens_used :: "rat option"
  intent_detected :: "string option"
  user_reaction :: "string option"
  msg_created_at :: int

record chat_context =
  ctx_conversation :: nat
  context_type :: string
  context_key :: string
  context_value :: pyval
  relevance :: rat

text \<open>Modelled from the spec: the rows of the user-profile and workout subsystems
  (\<^verbatim>\<open>apps.users\<close>, \<^verbatim>\<open>apps.workouts\<close>), which are not among the sources. The service only
  copies their fields into a context record, so they are kept as Python values.\<close>

record user_profile =
  profile_user :: nat
  goal :: pyval
  activity_level :: pyval
  focus_areas :: pyval
  age :: pyval
  current_weight :: pyval
  target_weight :: pyval

record workout_session =
  session_user :: nat
  completed :: bool
  completed_at :: int
  workout_name :: "string option"
  user_rating :: pyval
  actual_duration :: pyval

text \<open>What the completion backend does with one request: it raises, it returns
  \<^verbatim>\<open>None\<close>, or it returns a text.\<close>

datatype ai_reply = RequestRaises | NoReply | Reply string

text \<open>
  The world is everything outside the service: the tables of the data store, the cache
  (key, payload, time of expiry), the two primary-key counters, the clock, and what the
  collaborators will do next.
  \<^item> \<open>now\<close> is the time of the last reading of the clock and \<open>ticks\<close> the delays before
    the next readings; when the delays run out the clock stands still. A delay is a
    natural number, so the clock never runs backwards.
  \<^item> \<open>faults\<close> says, call by call, whether the next call of the data store or of the cache
    raises; when the list runs out no call raises.
  \<^item> \<open>ai_available\<close> is \<^verbatim>\<open>ai_service.is_available\<close>, and \<open>ai_replies\<close> says what the backend
    does with the next requests; when the list runs out it returns \<^verbatim>\<open>None\<close>.
\<close>

record world =
  conversations :: "conversation list"
  messages :: "message list"
  contexts :: "chat_context list"
  user_profiles :: "user_profile list"
  workout_sessions :: "workout_session list"
  cache :: "(int \<times> intent_analysis \<times> int) list"
  next_conversation_id :: nat
  next_message_id :: nat
  now :: int
  ticks :: "nat list"
  faults :: "bool list"
  ai_available :: bool
  ai_replies :: "ai_reply list"

text \<open>What is fixed while the service runs: \<^verbatim>\<open>settings.OPENAI_MODEL\<close> (if set), Python's
  \<^verbatim>\<open>hash\<close> on strings, and \<^verbatim>\<open>json.loads\<close> read at the type of an intent analysis
  (\<open>None\<close> when it raises).\<close>

record chat_service =
  openai_model :: "string option"
  str_hash :: "string \<Rightarrow> int"
  json_loads :: "string \<Rightarrow> intent_analysis option"

section \<open>Exceptions and effects\<close>

text \<open>
  The exceptions the service tells apart: the two \<^verbatim>\<open>DoesNotExist\<close> classes it names in an
  \<^verbatim>\<open>except\<close> clause, and every other \<^verbatim>\<open>Exception\<close>. A computation takes the world and
  returns an exception or a value, and the world it leaves behind: what was written
  before an exception stays written (Django commits each statement).
\<close>

datatype exn = ConversationDoesNotExist | UserProfileDoesNotExist | OtherException

type_synonym 'a io = "world \<Rightarrow> (exn + 'a) \<times> world"

definition io_return :: "'a \<Rightarrow> 'a io" where
  "io_return x = (\<lambda>w. (Inr x, w))"

definition io_raise :: "exn \<Rightarrow> 'a io" where
  "io_raise e = (\<lambda>w. (Inl e, w))"

definition io_bind :: "'a io \<Rightarrow> ('a \<Rightarrow> 'b io) \<Rightarrow> 'b io" where
  "io_bind m f = (\<lambda>w. case m w of (Inl e, w') \<Rightarrow> (Inl e, w') | (Inr x, w') \<Rightarrow> f x w')"

text \<open>\<^verbatim>\<open>try: m except ...: h e\<close>\<close>

definition io_catch :: "'a io \<Rightarrow> (exn \<Rightarrow> 'a io) \<Rightarrow> 'a io" where
  "io_catch m h = (\<lambda>w. case m w of (Inl e, w') \<Rightarrow> h e w' | (Inr x, w') \<Rightarrow> (Inr x, w'))"

text \<open>A call of the data store or of the cache: it raises if the next fault flag says so.\<close>

definition fault_point :: "unit io" where
  "fault_point = (\<lambda>w. case faults w of
       [] \<Rightarrow> (Inr (), w)
     | f # fs \<Rightarrow> (if f then Inl OtherException else Inr (), w\<lparr>faults := fs\<rparr>))"

text \<open>\<^verbatim>\<open>time.time()\<close> and \<^verbatim>\<open>timezone.now()\<close>: the clock moves on by the next delay and
  is read.\<close>

definition advance :: "world \<Rightarrow> world" where
  "advance w = (case ticks w of
       [] \<Rightarrow> w
     | d # ds \<Rightarrow> w\<lparr>now := now w + int d, ticks := ds\<rparr>)"

definition read_clock :: "int io" where
  "read_clock = (\<lambda>w. (Inr (now (advance w)), advance w))"

definition hours :: "int \<Rightarrow> int" where
  "hours h = h * 3600000000"

definition seconds :: "int \<Rightarrow> int" where
  "seconds s = s * 1000000"

definition days :: "int \<Rightarrow> int" where
  "days d = d * 86400000000"

subsection \<open>The data store\<close>

text \<open>Modelled from the spec: the persistence collaborator of section 6
  (create, get and update for Conversation; create and query for Message; get and upsert
  for ChatContext by conversation, type and key; the query helpers). A new row gets the
  next primary key and the time of its creation; a new conversation is active.\<close>

definition truthy_str :: "string option \<Rightarrow> bool" where
  "truthy_str s = (case s of None \<Rightarrow> False | Some x \<Rightarrow> x \<noteq> [])"

text \<open>\<^verbatim>\<open>Conversation.objects.filter(user=user, status='active', created_at__gte=t).first()\<close>\<close>

definition conversation_filter_first :: "user \<Rightarrow> int \<Rightarrow> conversation option io" where
  "conversation_filter_first u t =
     io_bind fault_point (\<lambda>_. (\<lambda>w.
       (Inr (find (\<lambda>c. user_id (conv_user c) = user_id u \<and> status c = ''active'' \<and> t \<le> created_at c)
               (conversations w)), w)))"

text \<open>\<^verbatim>\<open>Conversation.objects.create(user=..., conversation_type=..., ai_model_used=...)\<close>\<close>

definition conversation_create :: "user \<Rightarrow> string \<Rightarrow> string \<Rightarrow> conversation io" where
  "conversation_create u ctype model =
     io_bind fault_point (\<lambda>_.
     io_bind read_clock (\<lambda>t. (\<lambda>w.
       let c = \<lparr> conv_id = next_conversation_id w, conv_user = u, conversation_type = ctype,
                 status = ''active'', created_at = t, ai_model_used = model,
                 user_satisfaction_rating = None \<rparr>
       in (Inr c, w\<lparr>conversations := conversations w @ [c],
                    next_conversation_id := Suc (next_conversation_id w)\<rparr>))))"

text \<open>\<^verbatim>\<open>Conversation.objects.get(id=conversation_id)\<close>\<close>

definition conversation_get :: "nat \<Rightarrow> conversation io" where
  "conversation_get cid =
     io_bind fault_point (\<lambda>_. (\<lambda>w.
       case find (\<lambda>c. conv_id c = cid) (conversations w) of
         None \<Rightarrow> (Inl ConversationDoesNotExist, w)
       | Some c \<Rightarrow> (Inr c, w)))"

text \<open>\<^verbatim>\<open>conversation.save()\<close>: the row with this primary key is overwritten (inserted if
  there is none).\<close>

definition conversation_save :: "conversation \<Rightarrow> unit io" where
  "conversation_save c =
     io_bind fault_point (\<lambda>_. (\<lambda>w.
       (Inr (),
        if list_ex (\<lambda>c'. conv_id c' = conv_id c) (conversations w)
        then w\<lparr>conversations := map (\<lambda>c'. if conv_id c' = conv_id c then c else c') (conversations w)\<rparr>
        else w\<lparr>conversations := conversations w @ [c]\<rparr>)))"

text \<open>\<^verbatim>\<open>conversation.is_expired()\<close>: the age of the conversation exceeds the fixed
  timeout of 24 hours; the status is not looked at.\<close>

definition conversation_timeout :: int where
  "conversation_timeout = hours 24"

definition is_expired :: "conversation \<Rightarrow> bool io" where
  "is_expired c = io_bind read_clock (\<lambda>t. io_return (conversation_timeout < t - created_at c))"

text \<open>\<^verbatim>\<open>conversation.message_count\<close>\<close>

definition message_count :: "conversation \<Rightarrow> nat io" where
  "message_count c =
     io_bind fault_point (\<lambda>_. (\<lambda>w.
       (Inr (length (filter (\<lambda>m. msg_conversation m = conv_id c) (messages w))), w)))"

text \<open>\<^verbatim>\<open>Message.objects.create(...)\<close>: the fields the caller gives, a fresh primary key and
  the time of creation.\<close>

definition message_create :: "message \<Rightarrow> message io" where
  "message_create row =
     io_bind fault_point (\<lambda>_.
     io_bind read_clock (\<lambda>t. (\<lambda>w.
       let m = row\<lparr>msg_id := next_message_id w, msg_created_at := t\<rparr>
       in (Inr m, w\<lparr>messages := messages w @ [m],
                    next_message_id := Suc (next_message_id w)\<rparr>))))"

text \<open>\<^verbatim>\<open>message.save()\<close>\<close>

definition message_save :: "message \<Rightarrow> unit io" where
  "message_save m =
     io_bind fault_point (\<lambda>_. (\<lambda>w.
       (Inr (),
        if list_ex (\<lambda>m'. msg_id m' = msg_id m) (messages w)
        then w\<lparr>messages := map (\<lambda>m'. if msg_id m' = msg_id m then m else m') (messages w)\<rparr>
        else w\<lparr>messages := messages w @ [m]\<rparr>)))"

text \<open>\<^verbatim>\<open>conversation.get_last_messages(n)\<close>: the \<open>n\<close> most recent messages, newest first.\<close>

definition get_last_messages :: "conversation \<Rightarrow> nat \<Rightarrow> message list io" where
  "get_last_messages c n =
     io_bind fault_point (\<lambda>_. (\<lambda>w.
       (Inr (take n (rev (filter (\<lambda>m. msg_conversation m = conv_id c) (messages w)))), w)))"

text \<open>\<^verbatim>\<open>ChatContext.set_context(conversation, type, key, value, relevance)\<close>: the latest
  write for a conversation, type and key wins; no history is kept.\<close>

definition same_slot :: "nat \<Rightarrow> string \<Rightarrow> string \<Rightarrow> chat_context \<Rightarrow> bool" where
  "same_slot cid ctype ckey x =
     (ctx_conversation x = cid \<and> context_type x = ctype \<and> context_key x = ckey)"

definition set_context :: "conversation \<Rightarrow> string \<Rightarrow> string \<Rightarrow> pyval \<Rightarrow> rat \<Rightarrow> unit io" where
  "set_context c ctype ckey v rel =
     io_bind fault_point (\<lambda>_. (\<lambda>w.
       let x = \<lparr> ctx_conversation = conv_id c, context_type = ctype, context_key = ckey,
                 context_value = v, relevance = rel \<rparr>
       in (Inr (),
           if list_ex (same_slot (conv_id c) ctype ckey) (contexts w)
           then w\<lparr>contexts := map (\<lambda>y. if same_slot (conv_id c) ctype ckey y then x else y) (contexts w)\<rparr>
           else w\<lparr>contexts := contexts w @ [x]\<rparr>)))"

text \<open>\<^verbatim>\<open>ChatContext.get_context(conversation, type, key).first()\<close>\<close>

definition get_context_first :: "conversation \<Rightarrow> string \<Rightarrow> string \<Rightarrow> chat_context option io" where
  "get_context_first c ctype ckey =
     io_bind fault_point (\<lambda>_. (\<lambda>w.
       (Inr (find (same_slot (conv_id c) ctype ckey) (contexts w)), w)))"

text \<open>\<^verbatim>\<open>ChatContext.get_context(conversation)\<close>, iterated: every context record of the
  conversation.\<close>

definition get_context_all :: "conversation \<Rightarrow> chat_context list io" where
  "get_context_all c =
     io_bind fault_point (\<lambda>_. (\<lambda>w.
       (Inr (filter (\<lambda>x. ctx_conversation x = conv_id c) (contexts w)), w)))"

text \<open>\<^verbatim>\<open>UserProfile.objects.get(user=user)\<close>\<close>

definition user_profile_get :: "user \<Rightarrow> user_profile io" where
  "user_profile_get u =
     io_bind fault_point (\<lambda>_. (\<lambda>w.
       case find (\<lambda>p. profile_user p = user_id u) (user_profiles w) of
         None \<Rightarrow> (Inl UserProfileDoesNotExist, w)
       | Some p \<Rightarrow> (Inr p, w)))"

text \<open>\<^verbatim>\<open>WorkoutSession.objects.filter(user=user, completed=True,
  completed_at__gte=t).order_by('-completed_at')[:5]\<close>\<close>

definition recent_workout_sessions :: "user \<Rightarrow> int \<Rightarrow> workout_session list io" where
  "recent_workout_sessions u t =
     io_bind fault_point (\<lambda>_. (\<lambda>w.
       (Inr (take 5 (rev (sort_key completed_at
               (filter (\<lambda>s. session_user s = user_id u \<and> completed s \<and> t \<le> completed_at s)
                  (workout_sessions w))))), w)))"

subsection \<open>The cache and the completion backend\<close>

text \<open>Django's cache: \<^verbatim>\<open>cache.set(key, payload, ttl)\<close> stores the payload until \<open>ttl\<close>
  seconds after the write, replacing an older entry of the key; \<^verbatim>\<open>cache.get(key)\<close>
  returns the payload of a live entry and \<^verbatim>\<open>None\<close> otherwise. The key
  \<^verbatim>\<open>intent_analysis_<hash>\<close> is given by the hash.\<close>

definition cache_lookup :: "(int \<times> intent_analysis \<times> int) list \<Rightarrow> int \<Rightarrow> int \<Rightarrow> intent_analysis option" where
  "cache_lookup entries k t =
     (case map_of entries k of
        None \<Rightarrow> None
      | Some (payload, expires) \<Rightarrow> (if t < expires then Some payload else None))"

definition cache_get :: "int \<Rightarrow> intent_analysis option io" where
  "cache_get k =
     io_bind fault_point (\<lambda>_.
     io_bind read_clock (\<lambda>t. (\<lambda>w. (Inr (cache_lookup (cache w) k t), w))))"

definition cache_set :: "int \<Rightarrow> intent_analysis \<Rightarrow> int \<Rightarrow> unit io" where
  "cache_set k payload ttl =
     io_bind fault_point (\<lambda>_.
     io_bind read_clock (\<lambda>t. (\<lambda>w.
       (Inr (), w\<lparr>cache := (k, payload, t + seconds ttl) # filter (\<lambda>e. fst e \<noteq> k) (cache w)\<rparr>))))"

text \<open>\<^verbatim>\<open>ai_service._make_openai_request(messages, max_tokens, temperature)\<close>. The prompts
  the service builds are not modelled: nothing in this repository says how the reply of
  the backend follows from them, so the reply is taken from the world.\<close>

definition make_openai_request :: "string option io" where
  "make_openai_request = (\<lambda>w. case ai_replies w of
       [] \<Rightarrow> (Inr None, w)
     | r # rs \<Rightarrow> (case r of
          RequestRaises \<Rightarrow> (Inl OtherException, w\<lparr>ai_replies := rs\<rparr>)
        | NoReply \<Rightarrow> (Inr None, w\<lparr>ai_replies := rs\<rparr>)
        | Reply s \<Rightarrow> (Inr (Some s), w\<lparr>ai_replies := rs\<rparr>)))"

section \<open>The chat service\<close>

text \<open>
  The functions of \<^verbatim>\<open>ChatService\<close> follow, each under the name it has in the source (the
  leading underscore of a private method is dropped). \<open>self\<close> holds what is fixed while
  the service runs. An \<^verbatim>\<open>except Exception\<close> clause is an \<open>io_catch\<close> whose handler
  ignores the exception; \<^verbatim>\<open>logger.error\<close> has no effect on the world.
\<close>

subsection \<open>Intent analysis\<close>

text \<open>A dict is false in a condition when it is empty.\<close>

definition empty_analysis :: intent_analysis where
  "empty_analysis =
     \<lparr> intent = None, confidence = None, secondary_intents = None, keywords_found = None,
       urgency_level = None, requires_personalization = None \<rparr>"

definition truthy_analysis :: "intent_analysis \<Rightarrow> bool" where
  "truthy_analysis a = (a \<noteq> empty_analysis)"

text \<open>\<^verbatim>\<open>{'intent': 'general_question', 'confidence': 0.5}\<close>\<close>

definition default_analysis :: intent_analysis where
  "default_analysis = empty_analysis\<lparr> intent := Some ''general_question'', confidence := Some (1 / 2) \<rparr>"

definition ai_intent_analysis :: "chat_service \<Rightarrow> string \<Rightarrow> conversation \<Rightarrow> intent_analysis option io" where
  "ai_intent_analysis self message conversation =
     io_catch
       (io_bind make_openai_request (\<lambda>response.
          case response of
            None \<Rightarrow> io_return None
          | Some s \<Rightarrow>
              if s = [] then io_return None
              else (case json_loads self s of
                      None \<Rightarrow> io_raise OtherException
                    | Some a \<Rightarrow> io_return (Some a))))
       (\<lambda>e. io_return None)"

definition get_ai_available :: "bool io" where
  "get_ai_available = (\<lambda>w. (Inr (ai_available w), w))"

definition analyze_message_intent :: "chat_service \<Rightarrow> string \<Rightarrow> conversation \<Rightarrow> intent_analysis io" where
  "analyze_message_intent self message conversation =
     io_catch
       (let cache_key = str_hash self (py_lower message) in
        io_bind (cache_get cache_key) (\<lambda>cached_intent.
          if (case cached_intent of None \<Rightarrow> False | Some c \<Rightarrow> truthy_analysis c)
          then (case cached_intent of None \<Rightarrow> io_return default_analysis | Some c \<Rightarrow> io_return c)
          else
            io_bind get_ai_available (\<lambda>available.
            io_bind (if available then ai_intent_analysis self message conversation
                     else io_return None) (\<lambda>ai_intent.
              if (case ai_intent of None \<Rightarrow> False | Some a \<Rightarrow> truthy_analysis a)
              then (case ai_intent of
                      None \<Rightarrow> io_return default_analysis
                    | Some a \<Rightarrow> io_bind (cache_set cache_key a 3600) (\<lambda>_. io_return a))
              else
                (let rule_intent = rule_based_intent_analysis message in
                 io_bind (cache_set cache_key rule_intent 1800) (\<lambda>_. io_return rule_intent))))))
       (\<lambda>e. io_return default_analysis)"

subsection \<open>Replies\<close>

text \<open>The dict \<^verbatim>\<open>processed\<close> of \<^verbatim>\<open>_process_ai_response\<close>.\<close>

record processed_response =
  success :: bool
  p_content :: string
  p_confidence_score :: rat
  suggested_actions :: "string list"
  workout_references :: "string list"

definition action_patterns :: "(string \<times> string list) list" where
  "action_patterns =
  [(''try_exercise'', [''experimente'', ''tente fazer'', ''fa'' @ [CHR 0xC3, CHR 0xA7] @ ''a'']),
   (''rest_recovery'', [''descanse'', ''pause'', ''recupera'' @ [CHR 0xC3, CHR 0xA7, CHR 0xC3, CHR 0xA3] @ ''o'']),
   (''seek_professional'', [''consulte'', ''procure um'', ''m'' @ [CHR 0xC3, CHR 0xA9] @ ''dico'', ''fisioterapeuta'']),
   (''schedule_workout'', [''agende'', ''planeje'', ''organize'']),
   (''track_progress'', [''anote'', ''registre'', ''acompanhe''])]"

definition common_exercises :: "string list" where
  "common_exercises = [''agachamento'', ''flex'' @ [CHR 0xC3, CHR 0xA3] @ ''o'', ''corrida'', ''caminhada'', ''prancha'', ''abdominais'']"

definition process_ai_response :: "string \<Rightarrow> intent_analysis \<Rightarrow> processed_response" where
  "process_ai_response response intent_analysis =
     (let response_lower = py_lower response
      in \<lparr> success = True,
           p_content = response,
           p_confidence_score = 8 / 10,
           suggested_actions =
             map fst (filter (\<lambda>(action, patterns). list_ex (contains response_lower) patterns)
                        action_patterns),
           workout_references = filter (contains response_lower) common_exercises \<rparr>)"

text \<open>\<^verbatim>\<open>conversation.get_last_messages(8)\<close> and \<^verbatim>\<open>_build_conversation_context\<close> are read
  for the prompt; they are calls of the data store and can raise.\<close>

definition dict_set :: "(string \<times> 'v) list \<Rightarrow> string \<Rightarrow> 'v \<Rightarrow> (string \<times> 'v) list" where
  "dict_set d k v =
     (if list_ex (\<lambda>e. fst e = k) d then map (\<lambda>e. if fst e = k then (k, v) else e) d
      else d @ [(k, v)])"

definition build_conversation_context :: "conversation \<Rightarrow> (string \<times> pydict) list io" where
  "build_conversation_context conversation =
     io_bind (get_context_all conversation) (\<lambda>ctxs.
       io_return
         (foldl (\<lambda>context_data x.
                   dict_set context_data (context_type x)
                     (dict_set (case map_of context_data (context_type x) of
                                  None \<Rightarrow> [] | Some d \<Rightarrow> d)
                        (context_key x) (context_value x)))
            [] ctxs))"

definition generate_ai_response ::
  "chat_service \<Rightarrow> conversation \<Rightarrow> string \<Rightarrow> intent_analysis \<Rightarrow> processed_response option io" where
  "generate_ai_response self conversation message intent_analysis =
     io_bind get_ai_available (\<lambda>available.
       if \<not> available then io_return None
       else
         io_catch
           (io_bind (build_conversation_context conversation) (\<lambda>context_data.
            io_bind (get_last_messages conversation 8) (\<lambda>recent_messages.
            io_bind make_openai_request (\<lambda>response.
              case response of
                None \<Rightarrow> io_return None
              | Some s \<Rightarrow>
                  if s = [] then io_return None
                  else io_return (Some (process_ai_response s intent_analysis))))))
           (\<lambda>e. io_return None))"

text \<open>The table \<^verbatim>\<open>fallback_responses\<close> of \<^verbatim>\<open>_generate_fallback_response\<close>; the entry of
  \<open>general_question\<close> is also the default of the lookup.\<close>

definition fallback_general :: "string \<Rightarrow> string" where
  "fallback_general user_name =
     ''Oi, '' @ user_name @ ''! Estou aqui para ajudar com suas d'' @ [CHR 0xC3, CHR 0xBA] @ ''vidas sobre fitness. Posso orientar sobre exerc'' @ [CHR 0xC3, CHR 0xAD] @ ''cios, t'' @ [CHR 0xC3, CHR 0xA9] @ ''cnicas, motiva'' @ [CHR 0xC3, CHR 0xA7, CHR 0xC3, CHR 0xA3] @ ''o e planejamento de treinos. No que posso te auxiliar hoje?''"

definition fallback_responses :: "string \<Rightarrow> (string \<times> string) list" where
  "fallback_responses user_name =
  [(''workout_request'',
     ''Ol'' @ [CHR 0xC3, CHR 0xA1] @ '', '' @ user_name @ ''! Para recomenda'' @ [CHR 0xC3, CHR 0xA7, CHR 0xC3, CHR 0xB5] @ ''es de treino personalizadas, que tal come'' @ [CHR 0xC3, CHR 0xA7] @ ''armos com alguns exerc'' @ [CHR 0xC3, CHR 0xAD] @ ''cios b'' @ [CHR 0xC3, CHR 0xA1] @ ''sicos? Posso sugerir um treino de corpo inteiro com agachamentos, flex'' @ [CHR 0xC3, CHR 0xB5] @ ''es e prancha. Voc'' @ [CHR 0xC3, CHR 0xAA] @ '' tem alguma prefer'' @ [CHR 0xC3, CHR 0xAA] @ ''ncia espec'' @ [CHR 0xC3, CHR 0xAD] @ ''fica ou restri'' @ [CHR 0xC3, CHR 0xA7, CHR 0xC3, CHR 0xA3] @ ''o?''),
   (''technique_question'',
     [CHR 0xC3, CHR 0x93] @ ''tima pergunta sobre t'' @ [CHR 0xC3, CHR 0xA9] @ ''cnica, '' @ user_name @ ''! A execu'' @ [CHR 0xC3, CHR 0xA7, CHR 0xC3, CHR 0xA3] @ ''o correta '' @ [CHR 0xC3, CHR 0xA9] @ '' fundamental para evitar les'' @ [CHR 0xC3, CHR 0xB5] @ ''es e maximizar resultados. Para exerc'' @ [CHR 0xC3, CHR 0xAD] @ ''cios espec'' @ [CHR 0xC3, CHR 0xAD] @ ''ficos, sempre foque em: postura correta, movimento controlado, respira'' @ [CHR 0xC3, CHR 0xA7, CHR 0xC3, CHR 0xA3] @ ''o adequada e progress'' @ [CHR 0xC3, CHR 0xA3] @ ''o gradual. Sobre qual exerc'' @ [CHR 0xC3, CHR 0xAD] @ ''cio voc'' @ [CHR 0xC3, CHR 0xAA] @ '' gostaria de saber mais?''),
   (''nutrition_advice'',
     ''Nutri'' @ [CHR 0xC3, CHR 0xA7, CHR 0xC3, CHR 0xA3] @ ''o '' @ [CHR 0xC3, CHR 0xA9] @ '' super importante, '' @ user_name @ ''! Algumas dicas b'' @ [CHR 0xC3, CHR 0xA1] @ ''sicas: mantenha-se hidratado, inclua prote'' @ [CHR 0xC3, CHR 0xAD] @ ''nas em cada refei'' @ [CHR 0xC3, CHR 0xA7, CHR 0xC3, CHR 0xA3] @ ''o, e consuma vegetais variados. Para um plano nutricional espec'' @ [CHR 0xC3, CHR 0xAD] @ ''fico, recomendo consultar um nutricionista qualificado. Posso ajudar com mais alguma coisa sobre fitness?''),
   (''progress_inquiry'',
     ''Que bom que voc'' @ [CHR 0xC3, CHR 0xAA] @ '' est'' @ [CHR 0xC3, CHR 0xA1] @ '' acompanhando seu progresso, '' @ user_name @ ''! O importante '' @ [CHR 0xC3, CHR 0xA9] @ '' a consist'' @ [CHR 0xC3, CHR 0xAA] @ ''ncia. Celebre cada pequena vit'' @ [CHR 0xC3, CHR 0xB3] @ ''ria e lembre-se que resultados levam tempo. Continue firme na sua rotina! Como voc'' @ [CHR 0xC3, CHR 0xAA] @ '' tem se sentido nos treinos recentes?''),
   (''motivation_need'',
     ''Entendo, '' @ user_name @ ''. Todos passamos por momentos assim! Lembre-se: cada treino '' @ [CHR 0xC3, CHR 0xA9] @ '' um investimento na sua sa'' @ [CHR 0xC3, CHR 0xBA] @ ''de e bem-estar. Comece pequeno se necess'' @ [CHR 0xC3, CHR 0xA1] @ ''rio - at'' @ [CHR 0xC3, CHR 0xA9] @ '' 10 minutos j'' @ [CHR 0xC3, CHR 0xA1] @ '' fazem diferen'' @ [CHR 0xC3, CHR 0xA7] @ ''a. Voc'' @ [CHR 0xC3, CHR 0xAA] @ '' '' @ [CHR 0xC3, CHR 0xA9] @ '' mais forte do que imagina! O que te motivou a come'' @ [CHR 0xC3, CHR 0xA7] @ ''ar essa jornada?''),
   (''injury_concern'',
     ''Sua seguran'' @ [CHR 0xC3, CHR 0xA7] @ ''a '' @ [CHR 0xC3, CHR 0xA9] @ '' prioridade, '' @ user_name @ ''. Se voc'' @ [CHR 0xC3, CHR 0xAA] @ '' est'' @ [CHR 0xC3, CHR 0xA1] @ '' sentindo dor, '' @ [CHR 0xC3, CHR 0xA9] @ '' importante parar e avaliar. Para dores persistentes, sempre consulte um profissional de sa'' @ [CHR 0xC3, CHR 0xBA] @ ''de. No treino, escute sempre seu corpo. Posso ajudar com exerc'' @ [CHR 0xC3, CHR 0xAD] @ ''cios de baixo impacto enquanto se recupera?'')]
   @ [(''general_question'', fallback_general user_name)]"

definition generate_fallback_response :: "conversation \<Rightarrow> string \<Rightarrow> intent_analysis \<Rightarrow> string" where
  "generate_fallback_response conversation message intent_analysis =
     (let intent_name = (case intent intent_analysis of None \<Rightarrow> ''general_question'' | Some i \<Rightarrow> i);
          user_name = (if first_name (conv_user conversation) = [] then ''amigo(a)''
                       else first_name (conv_user conversation))
      in case map_of (fallback_responses user_name) intent_name of
           None \<Rightarrow> fallback_general user_name
         | Some t \<Rightarrow> t)"

subsection \<open>The welcome message\<close>

record welcome_response =
  w_content :: string
  w_confidence :: rat
  w_response_time :: rat

text \<open>\<^verbatim>\<open>round(x)\<close> and \<^verbatim>\<open>round(x, 2)\<close> on a time difference: \<open>round_div n d\<close> is the integer
  nearest to \<open>n / d\<close> for a positive \<open>d\<close>, the even one of the two when \<open>n / d\<close> lies half
  way.\<close>

definition round_div :: "int \<Rightarrow> int \<Rightarrow> int" where
  "round_div n d =
     (let q = n div d; r = n mod d
      in if 2 * r < d then q else if d < 2 * r then q + 1 else if even q then q else q + 1)"

text \<open>\<^verbatim>\<open>round((t - start_time) * 1000, 2)\<close> for times in microseconds.\<close>

definition elapsed_ms :: "int \<Rightarrow> int \<Rightarrow> rat" where
  "elapsed_ms start_time t = of_int (round_div (t - start_time) 10) / 100"

definition py_strip :: "string \<Rightarrow> string" where
  "py_strip s = rev (dropWhile is_space (rev (dropWhile is_space s)))"

definition ai_welcome_message ::
  "string \<Rightarrow> string \<Rightarrow> (string \<times> pydict) list \<Rightarrow> welcome_response option io" where
  "ai_welcome_message user_name ctype context_data =
     io_catch
       (io_bind read_clock (\<lambda>start_time.
        io_bind make_openai_request (\<lambda>response.
          case response of
            None \<Rightarrow> io_return None
          | Some s \<Rightarrow>
              if s = [] then io_return None
              else io_bind read_clock (\<lambda>t.
                     io_return (Some \<lparr> w_content = py_strip s, w_confidence = 9 / 10,
                                       w_response_time = of_int (round_div (t - start_time) 1000) \<rparr>)))))
       (\<lambda>e. io_return None)"

definition welcome_general :: "string \<Rightarrow> string" where
  "welcome_general user_name =
     ''Ol'' @ [CHR 0xC3, CHR 0xA1] @ '', '' @ user_name @ ''! '' @ [CHR 0xF0, CHR 0x9F, CHR 0x8F, CHR 0x83, CHR 0xE2, CHR 0x80, CHR 0x8D, CHR 0xE2, CHR 0x99, CHR 0x82, CHR 0xEF, CHR 0xB8, CHR 0x8F] @ '' Bem-vindo(a) ao seu chat fitness personalizado! Sou Alex e estou aqui para tirar d'' @ [CHR 0xC3, CHR 0xBA] @ ''vidas, sugerir treinos e te apoiar nessa jornada. O que voc'' @ [CHR 0xC3, CHR 0xAA] @ '' gostaria de saber?''"

definition type_messages :: "string \<Rightarrow> (string \<times> string) list" where
  "type_messages user_name =
  [(''workout_consultation'',
     ''Ol'' @ [CHR 0xC3, CHR 0xA1] @ '', '' @ user_name @ ''! '' @ [CHR 0xF0, CHR 0x9F, CHR 0x92, CHR 0xAA] @ '' Sou Alex, seu personal trainer virtual. Estou aqui para ajudar voc'' @ [CHR 0xC3, CHR 0xAA] @ '' a criar treinos personalizados e alcan'' @ [CHR 0xC3, CHR 0xA7] @ ''ar seus objetivos. Como posso te ajudar hoje?''),
   (''progress_analysis'',
     ''Oi, '' @ user_name @ ''! '' @ [CHR 0xF0, CHR 0x9F, CHR 0x93, CHR 0x88] @ '' Que bom te ver aqui! Vamos analisar seu progresso e ver como voc'' @ [CHR 0xC3, CHR 0xAA] @ '' est'' @ [CHR 0xC3, CHR 0xA1] @ '' evoluindo. Tenho algumas perguntas para entender melhor sua jornada. Pronto para come'' @ [CHR 0xC3, CHR 0xA7] @ ''ar?''),
   (''motivation_chat'',
     ''Hey, '' @ user_name @ ''! '' @ [CHR 0xF0, CHR 0x9F, CHR 0x8C, CHR 0x9F] @ '' '' @ [CHR 0xC3, CHR 0x80] @ ''s vezes todos precisamos de um empurr'' @ [CHR 0xC3, CHR 0xA3] @ ''ozinho, n'' @ [CHR 0xC3, CHR 0xA9] @ ''? Estou aqui para te motivar e lembrar do incr'' @ [CHR 0xC3, CHR 0xAD] @ ''vel que voc'' @ [CHR 0xC3, CHR 0xAA] @ '' '' @ [CHR 0xC3, CHR 0xA9] @ ''. Vamos conversar sobre o que est'' @ [CHR 0xC3, CHR 0xA1] @ '' te preocupando?''),
   (''technique_guidance'',
     ''Salve, '' @ user_name @ ''! '' @ [CHR 0xF0, CHR 0x9F, CHR 0x8E, CHR 0xAF] @ '' T'' @ [CHR 0xC3, CHR 0xA9] @ ''cnica correta '' @ [CHR 0xC3, CHR 0xA9] @ '' tudo no fitness! Estou aqui para te ajudar com d'' @ [CHR 0xC3, CHR 0xBA] @ ''vidas sobre execu'' @ [CHR 0xC3, CHR 0xA7, CHR 0xC3, CHR 0xA3] @ ''o de exerc'' @ [CHR 0xC3, CHR 0xAD] @ ''cios e boa forma. Qual movimento voc'' @ [CHR 0xC3, CHR 0xAA] @ '' gostaria de aperfei'' @ [CHR 0xC3, CHR 0xA7] @ ''oar?'')]
   @ [(''general_fitness'', welcome_general user_name)]"

definition generate_welcome_message :: "chat_service \<Rightarrow> conversation \<Rightarrow> welcome_response option io" where
  "generate_welcome_message self conversation =
     io_catch
       (let user_name = (if first_name (conv_user conversation) = [] then ''atleta''
                         else first_name (conv_user conversation));
            ctype = conversation_type conversation
        in io_bind get_ai_available (\<lambda>available.
           io_bind (if available
                    then io_bind (build_conversation_context conversation) (\<lambda>context_data.
                           ai_welcome_message user_name ctype context_data)
                    else io_return None) (\<lambda>ai_welcome.
             case ai_welcome of
               Some a \<Rightarrow> io_return (Some a)
             | None \<Rightarrow>
                 io_return (Some \<lparr> w_content = (case map_of (type_messages user_name) ctype of
                                                  None \<Rightarrow> welcome_general user_name
                                                | Some t \<Rightarrow> t),
                                   w_confidence = 8 / 10, w_response_time = 100 \<rparr>))))
       (\<lambda>e. io_return (Some \<lparr> w_content = ''Ol'' @ [CHR 0xC3, CHR 0xA1] @ ''! Sou Alex, seu assistente de fitness. Como posso ajudar voc'' @ [CHR 0xC3, CHR 0xAA] @ '' hoje?'',
                               w_confidence = 6 / 10, w_response_time = 50 \<rparr>))"

subsection \<open>Saving messages\<close>

definition blank_message :: message where
  "blank_message =
     \<lparr> msg_id = 0, msg_conversation = 0, message_type = [], content = [], msg_status = [],
       confidence_score = None, ai_model_version = None, response_time_ms = None,
       tokens_used = None, intent_detected = None, user_reaction = None, msg_created_at = 0 \<rparr>"

definition save_user_message :: "conversation \<Rightarrow> string \<Rightarrow> message io" where
  "save_user_message conversation text_in =
     message_create (blank_message\<lparr> msg_conversation := conv_id conversation,
                                    message_type := ''user'',
                                    content := text_in,
                                    msg_status := ''delivered'' \<rparr>)"

definition model_name :: "chat_service \<Rightarrow> string" where
  "model_name self = (case openai_model self of None \<Rightarrow> ''gpt-3.5-turbo'' | Some m \<Rightarrow> m)"

definition save_ai_message ::
  "chat_service \<Rightarrow> conversation \<Rightarrow> string \<Rightarrow> rat \<Rightarrow> rat \<Rightarrow> string option \<Rightarrow> message io" where
  "save_ai_message self conversation text_out rt score intent_name =
     message_create (blank_message\<lparr> msg_conversation := conv_id conversation,
                                    message_type := ''ai'',
                                    content := text_out,
                                    confidence_score := Some score,
                                    ai_model_version := Some (model_name self),
                                    response_time_ms := Some rt,
                                    tokens_used := Some (of_nat (length (py_split text_out)) * (13 / 10)),
                                    intent_detected := intent_name,
                                    msg_status := ''delivered'' \<rparr>)"

subsection \<open>The context of a conversation\<close>

definition initialize_conversation_context :: "conversation \<Rightarrow> unit io" where
  "initialize_conversation_context conversation =
     io_catch
       (let u = conv_user conversation in
        io_bind
          (io_catch
             (io_bind (user_profile_get u) (\<lambda>profile.
                set_context conversation ''user_profile'' ''basic_info''
                  (PDict [(''goal'', goal profile),
                          (''activity_level'', activity_level profile),
                          (''focus_areas'', focus_areas profile),
                          (''age'', age profile),
                          (''current_weight'', current_weight profile),
                          (''target_weight'', target_weight profile)])
                  1))
             (\<lambda>e. case e of
                    UserProfileDoesNotExist \<Rightarrow>
                      set_context conversation ''user_profile'' ''basic_info''
                        (PDict [(''profile_complete'', PBool False)]) (1 / 2)
                  | _ \<Rightarrow> io_raise e)) (\<lambda>_.
        io_bind read_clock (\<lambda>t.
        io_bind (recent_workout_sessions u (t - days 7)) (\<lambda>recent_sessions.
          let workout_history =
                map (\<lambda>session.
                       PDict [(''workout_name'',
                                 PStr (case workout_name session of
                                         None \<Rightarrow> ''Treino Personalizado'' | Some n \<Rightarrow> n)),
                              (''completed_at'', PInt (completed_at session)),
                              (''rating'', user_rating session),
                              (''duration'', actual_duration session)])
                  recent_sessions
          in io_bind (set_context conversation ''workout_history'' ''recent_workouts''
                        (PDict [(''recent_sessions'', PList workout_history)]) (8 / 10)) (\<lambda>_.
             set_context conversation ''preferences'' ''conversation_style''
               (PDict [(''preferred_response_length'', PStr ''medium''),
                       (''technical_level'', PStr ''intermediate'')])
               (6 / 10))))))
       (\<lambda>e. io_return ())"

text \<open>
  The topics of \<^verbatim>\<open>_update_conversation_context\<close>, from the stored value \<open>v\<close> and the new
  intent: \<^verbatim>\<open>v.get('topics', [])\<close> needs a dict; \<^verbatim>\<open>intent not in topics\<close> is membership in a
  list, the substring test on a string and the key test on a dict, and raises on the
  other values; \<^verbatim>\<open>topics.append\<close> needs a list; \<^verbatim>\<open>topics[-5:]\<close> keeps the last five.
\<close>

definition topics_update :: "pyval \<Rightarrow> string \<Rightarrow> exn + pyval" where
  "topics_update v intent_name =
     (case v of
        PDict d \<Rightarrow>
          (case (case map_of d ''topics'' of None \<Rightarrow> PList [] | Some t \<Rightarrow> t) of
             PList ts \<Rightarrow>
               if PStr intent_name \<in> set ts then Inr (PList ts)
               else Inr (PList (drop (length (ts @ [PStr intent_name]) - 5) (ts @ [PStr intent_name])))
           | PStr s \<Rightarrow> if contains s intent_name then Inr (PStr s) else Inl OtherException
           | PDict d' \<Rightarrow> if intent_name \<in> fst ` set d' then Inr (PDict d') else Inl OtherException
           | _ \<Rightarrow> Inl OtherException)
      | _ \<Rightarrow> Inl OtherException)"

definition update_conversation_context :: "conversation \<Rightarrow> string \<Rightarrow> intent_analysis \<Rightarrow> unit io" where
  "update_conversation_context conversation message intent_analysis =
     io_catch
       (let message_length = length (py_split message) in
        io_bind (if 20 < message_length
                 then set_context conversation ''preferences'' ''message_style''
                        (PDict [(''prefers_detailed'', PBool True),
                                (''last_message_length'', PInt (int message_length))])
                        (7 / 10)
                 else io_return ()) (\<lambda>_.
          if truthy_str (intent intent_analysis)
          then (case intent intent_analysis of
                  None \<Rightarrow> io_return ()
                | Some intent_name \<Rightarrow>
                    io_bind (get_context_first conversation ''preferences'' ''topics_of_interest'')
                      (\<lambda>current_topics.
                         case current_topics of
                           Some ct \<Rightarrow>
                             (case topics_update (context_value ct) intent_name of
                                Inl e \<Rightarrow> io_raise e
                              | Inr topics \<Rightarrow>
                                  set_context conversation ''preferences'' ''topics_of_interest''
                                    (PDict [(''topics'', topics)]) (6 / 10))
                         | None \<Rightarrow>
                             set_context conversation ''preferences'' ''topics_of_interest''
                               (PDict [(''topics'', PList [PStr intent_name])]) (6 / 10)))
          else io_return ()))
       (\<lambda>e. io_return ())"

subsection \<open>The three operations\<close>

definition expired_result :: pydict where
  "expired_result =
     [(''error'', PStr ''Conversa expirada''),
      (''suggestion'', PStr ''Inicie uma nova conversa para continuar'')]"

definition not_found_result :: pydict where
  "not_found_result =
     [(''error'', PStr (''Conversa n'' @ [CHR 0xC3, CHR 0xA3] @ ''o encontrada'')),
      (''suggestion'', PStr ''Verifique o ID da conversa ou inicie uma nova'')]"

definition processing_error_result :: pydict where
  "processing_error_result =
     [(''error'', PStr ''Erro ao processar mensagem''),
      (''suggestion'', PStr ''Tente novamente ou reformule sua pergunta'')]"

text \<open>The \<^verbatim>\<open>try\<close> block of \<^verbatim>\<open>process_user_message\<close>.\<close>

definition process_user_message_try :: "chat_service \<Rightarrow> int \<Rightarrow> nat \<Rightarrow> string \<Rightarrow> pydict io" where
  "process_user_message_try self start_time conversation_id message =
     io_bind (conversation_get conversation_id) (\<lambda>conversation.
     io_bind (is_expired conversation) (\<lambda>expired.
       if expired then io_return expired_result
       else
         io_bind (save_user_message conversation message) (\<lambda>user_message.
         io_bind (analyze_message_intent self message conversation) (\<lambda>intent_analysis.
         io_bind (message_save
                    (user_message\<lparr> intent_detected :=
                       Some (case intent intent_analysis of
                               None \<Rightarrow> ''general_question'' | Some i \<Rightarrow> i) \<rparr>)) (\<lambda>_.
         io_bind (update_conversation_context conversation message intent_analysis) (\<lambda>_.
         io_bind (generate_ai_response self conversation message intent_analysis) (\<lambda>ai_response.
           if (case ai_response of None \<Rightarrow> False | Some r \<Rightarrow> success r)
           then (case ai_response of
                   None \<Rightarrow> io_raise OtherException
                 | Some r \<Rightarrow>
                     io_bind read_clock (\<lambda>t1.
                     io_bind (save_ai_message self conversation (p_content r)
                                (elapsed_ms start_time t1) (p_confidence_score r)
                                (intent intent_analysis)) (\<lambda>ai_message.
                     io_bind read_clock (\<lambda>t2.
                       io_return
                         [(''message_id'', PInt (int (msg_id ai_message))),
                          (''response'', PStr (p_content r)),
                          (''conversation_updated'', PBool True),
                          (''intent_detected'', opt_str (intent intent_analysis)),
                          (''confidence_score'', PFloat (p_confidence_score r)),
                          (''response_time_ms'', PFloat (elapsed_ms start_time t2)),
                          (''suggested_actions'', PList (map PStr (suggested_actions r))),
                          (''workout_references'', PList (map PStr (workout_references r))),
                          (''method'', PStr ''ai_powered'')]))))
           else
             (let fallback_response = generate_fallback_response conversation message intent_analysis in
              io_bind read_clock (\<lambda>t1.
              io_bind (save_ai_message self conversation fallback_response
                         (elapsed_ms start_time t1) (6 / 10) (intent intent_analysis)) (\<lambda>ai_message.
                io_return
                  [(''message_id'', PInt (int (msg_id ai_message))),
                   (''response'', PStr fallback_response),
                   (''conversation_updated'', PBool True),
                   (''intent_detected'', opt_str (intent intent_analysis)),
                   (''method'', PStr ''rule_based_fallback''),
                   (''note'', PStr (''IA temporariamente indispon'' @ [CHR 0xC3, CHR 0xAD] @ ''vel''))]))))))))))"

definition process_user_message :: "chat_service \<Rightarrow> nat \<Rightarrow> string \<Rightarrow> pydict io" where
  "process_user_message self conversation_id message =
     io_bind read_clock (\<lambda>start_time.
       io_catch (process_user_message_try self start_time conversation_id message)
         (\<lambda>e. case e of
                ConversationDoesNotExist \<Rightarrow> io_return not_found_result
              | _ \<Rightarrow> io_return processing_error_result))"

definition start_error_result :: pydict where
  "start_error_result =
     [(''error'', PStr (''N'' @ [CHR 0xC3, CHR 0xA3] @ ''o foi poss'' @ [CHR 0xC3, CHR 0xAD] @ ''vel iniciar conversa'')),
      (''fallback'', PStr ''Tente novamente em alguns instantes'')]"

text \<open>The \<^verbatim>\<open>try\<close> block of \<^verbatim>\<open>start_conversation\<close>. \<^verbatim>\<open>not initial_message\<close> holds for
  \<^verbatim>\<open>None\<close> and for the empty string.\<close>

definition start_conversation_try ::
  "chat_service \<Rightarrow> user \<Rightarrow> string \<Rightarrow> string option \<Rightarrow> pydict io" where
  "start_conversation_try self u ctype initial_message =
     io_bind read_clock (\<lambda>t.
     io_bind (conversation_filter_first u (t - hours 2)) (\<lambda>recent_conversation.
       if recent_conversation \<noteq> None \<and> \<not> truthy_str initial_message
       then (case recent_conversation of
               None \<Rightarrow> io_raise OtherException
             | Some rc \<Rightarrow>
                 io_return
                   [(''conversation_id'', PInt (int (conv_id rc))),
                    (''status'', PStr ''resumed''),
                    (''message'', PStr ''Continuando conversa anterior...''),
                    (''conversation_type'', PStr (conversation_type rc)),
                    (''context_loaded'', PBool True)])
       else
         io_bind (conversation_create u ctype (model_name self)) (\<lambda>conversation.
         io_bind (initialize_conversation_context conversation) (\<lambda>_.
         io_bind
           (if \<not> truthy_str initial_message
            then io_bind (generate_welcome_message self conversation) (\<lambda>welcome.
                   case welcome of
                     None \<Rightarrow> io_return ()
                   | Some wr \<Rightarrow>
                       io_bind (save_ai_message self conversation (w_content wr)
                                  (w_response_time wr) (w_confidence wr) None) (\<lambda>_. io_return ()))
            else (case initial_message of
                    None \<Rightarrow> io_return ()
                  | Some im \<Rightarrow>
                      io_bind (save_user_message conversation im) (\<lambda>user_message.
                      io_bind (process_user_message self (conv_id conversation) im) (\<lambda>ai_response.
                        io_return ())))) (\<lambda>_.
         io_bind get_ai_available (\<lambda>available.
           io_return
             [(''conversation_id'', PInt (int (conv_id conversation))),
              (''status'', PStr ''created''),
              (''conversation_type'', PStr ctype),
              (''context_loaded'', PBool True),
              (''welcome_message'', PBool True),
              (''ai_available'', PBool available)]))))))"

definition start_conversation ::
  "chat_service \<Rightarrow> user \<Rightarrow> string \<Rightarrow> string option \<Rightarrow> pydict io" where
  "start_conversation self u ctype initial_message =
     io_catch (start_conversation_try self u ctype initial_message)
       (\<lambda>e. io_return start_error_result)"

definition end_not_found_result :: pydict where
  "end_not_found_result = [(''error'', PStr (''Conversa n'' @ [CHR 0xC3, CHR 0xA3] @ ''o encontrada''))]"

definition end_error_result :: pydict where
  "end_error_result = [(''error'', PStr ''Erro ao finalizar conversa'')]"

text \<open>The \<^verbatim>\<open>try\<close> block of \<^verbatim>\<open>end_conversation\<close>. \<^verbatim>\<open>if user_rating:\<close> is false for \<^verbatim>\<open>None\<close>
  and for \<^verbatim>\<open>0.0\<close>; \<^verbatim>\<open>user_rating is not None\<close> is false for \<^verbatim>\<open>None\<close> only.\<close>

definition end_conversation_try :: "nat \<Rightarrow> rat option \<Rightarrow> pydict io" where
  "end_conversation_try conversation_id rating =
     io_bind (conversation_get conversation_id) (\<lambda>found.
       let conversation = found\<lparr> status := ''completed'' \<rparr>;
           conversation = (if (case rating of None \<Rightarrow> False | Some r \<Rightarrow> r \<noteq> 0)
                           then conversation\<lparr> user_satisfaction_rating := rating \<rparr>
                           else conversation)
       in io_bind (conversation_save conversation) (\<lambda>_.
          io_bind (message_count conversation) (\<lambda>total.
          io_bind read_clock (\<lambda>t.
            io_return
              [(''conversation_ended'', PBool True),
               (''total_messages'', PInt (int total)),
               (''duration_minutes'', PFloat (of_int (t - created_at conversation) / 60000000)),
               (''rating_saved'', PBool (rating \<noteq> None))]))))"

definition end_conversation :: "nat \<Rightarrow> rat option \<Rightarrow> pydict io" where
  "end_conversation conversation_id rating =
     io_catch (end_conversation_try conversation_id rating)
       (\<lambda>e. case e of
              ConversationDoesNotExist \<Rightarrow> io_return end_not_found_result
            | _ \<Rightarrow> io_return end_error_result)"

section \<open>What a computation leaves unchanged\<close>

text \<open>
  The parts of the world a computation may write. \<open>frame S w w'\<close> says that \<open>w'\<close> differs
  from \<open>w\<close> at most in the parts \<open>S\<close>, in the clock and in the fault flags, that the clock
  has not run backwards nor further than its delays allow, and that no fault flag has
  appeared. \<open>steps R m\<close> says that every run of \<open>m\<close> relates the world before to the
  world after by \<open>R\<close>, whether it returns or raises.
\<close>

datatype part = Conversations | Messages | Contexts | Cache | Backend

definition frame :: "part set \<Rightarrow> world \<Rightarrow> world \<Rightarrow> bool" where
  "frame S w w' =
     ((Conversations \<in> S \<or>
         conversations w' = conversations w \<and> next_conversation_id w' = next_conversation_id w) \<and>
      (Messages \<in> S \<or> messages w' = messages w \<and> next_message_id w' = next_message_id w) \<and>
      (Contexts \<in> S \<or> contexts w' = contexts w) \<and>
      (Cache \<in> S \<or> cache w' = cache w) \<and>
      (Backend \<in> S \<or> ai_replies w' = ai_replies w) \<and>
      user_profiles w' = user_profiles w \<and>
      workout_sessions w' = workout_sessions w \<and>
      ai_available w' = ai_available w \<and>
      (faults w \<noteq> [] \<or> faults w' = []) \<and>
      now w \<le> now w' \<and>
      now w' + int (sum_list (ticks w')) \<le> now w + int (sum_list (ticks w)))"

definition steps :: "(world \<Rightarrow> world \<Rightarrow> bool) \<Rightarrow> 'a io \<Rightarrow> bool" where
  "steps R m = (\<forall>w. R w (snd (m w)))"

section \<open>Observations on the store\<close>

text \<open>The value and relevance of every context record stored for a conversation under a
  type and key, in store order.\<close>

definition slot_values :: "world \<Rightarrow> nat \<Rightarrow> string \<Rightarrow> string \<Rightarrow> (pyval \<times> rat) list" where
  "slot_values w cid ctype ckey =
     map (\<lambda>x. (context_value x, relevance x)) (filter (same_slot cid ctype ckey) (contexts w))"





section \<open>Frames of the collaborators and of the service functions\<close>

lemma frame_refl: "frame S w w"
  by (simp add: frame_def)

lemma frame_trans: "frame S a b \<Longrightarrow> frame S b c \<Longrightarrow> frame S a c"
  unfolding frame_def
  by (cases "Conversations \<in> S"; cases "Messages \<in> S"; cases "Contexts \<in> S";
      cases "Cache \<in> S"; cases "Backend \<in> S"; cases "faults a = []"; cases "faults b = []";
      simp)


lemma stepsI: "(\<And>w. R w (snd (m w))) \<Longrightarrow> steps R m"
  by (simp add: steps_def)

lemma stepsD: "steps R m \<Longrightarrow> R w (snd (m w))"
  by (simp add: steps_def)

lemma steps_return: "steps (frame S) (io_return x)"
  by (simp add: steps_def io_return_def frame_refl)

lemma steps_raise: "steps (frame S) (io_raise e)"
  by (simp add: steps_def io_raise_def frame_refl)

lemma steps_bind:
  assumes "steps (frame S) m" and "\<And>x. steps (frame S) (f x)"
  shows "steps (frame S) (io_bind m f)"
proof (rule stepsI)
  fix w
  show "frame S w (snd (io_bind m f w))"
  proof (cases "m w")
    case (Pair r w')
    from stepsD [OF assms(1), of w] Pair have 1: "frame S w w'" by simp
    show ?thesis
    proof (cases r)
      case (Inl e)
      with Pair 1 show ?thesis by (simp add: io_bind_def)
    next
      case (Inr x)
      have "steps (frame S) (f x)" by (rule assms(2))
      from stepsD [OF this] have "frame S w' (snd (f x w'))" .
      with 1 have "frame S w (snd (f x w'))" by (rule frame_trans)
      with Pair Inr show ?thesis by (simp add: io_bind_def)
    qed
  qed
qed

lemma steps_catch:
  assumes "steps (frame S) m" and "\<And>e. steps (frame S) (h e)"
  shows "steps (frame S) (io_catch m h)"
proof (rule stepsI)
  fix w
  show "frame S w (snd (io_catch m h w))"
  proof (cases "m w")
    case (Pair r w')
    from stepsD [OF assms(1), of w] Pair have 1: "frame S w w'" by simp
    show ?thesis
    proof (cases r)
      case (Inr x)
      with Pair 1 show ?thesis by (simp add: io_catch_def)
    next
      case (Inl e)
      have "steps (frame S) (h e)" by (rule assms(2))
      from stepsD [OF this] have "frame S w' (snd (h e w'))" .
      with 1 have "frame S w (snd (h e w'))" by (rule frame_trans)
      with Pair Inl show ?thesis by (simp add: io_catch_def)
    qed
  qed
qed

lemma steps_if:
  "(b \<Longrightarrow> steps R m) \<Longrightarrow> (\<not> b \<Longrightarrow> steps R n) \<Longrightarrow> steps R (if b then m else n)"
  by simp

lemma steps_case_option:
  "steps R m \<Longrightarrow> (\<And>x. steps R (f x)) \<Longrightarrow> steps R (case v of None \<Rightarrow> m | Some x \<Rightarrow> f x)"
  by (cases v) simp_all

lemma steps_case_sum:
  "(\<And>x. steps R (f x)) \<Longrightarrow> (\<And>y. steps R (g y)) \<Longrightarrow> steps R (case v of Inl x \<Rightarrow> f x | Inr y \<Rightarrow> g y)"
  by (cases v) simp_all

lemma steps_case_exn:
  "steps R a \<Longrightarrow> steps R b \<Longrightarrow> steps R c \<Longrightarrow>
   steps R (case e of ConversationDoesNotExist \<Rightarrow> a | UserProfileDoesNotExist \<Rightarrow> b
            | OtherException \<Rightarrow> c)"
  by (cases e) simp_all

lemma steps_let: "steps R (f v) \<Longrightarrow> steps R (let x = v in f x)"
  by simp

lemmas steps_rules =
  steps_return steps_raise steps_bind steps_catch steps_if steps_case_option steps_case_sum
  steps_case_exn steps_let

lemma frame_advance: "frame S w (advance w)"
  by (simp add: frame_def advance_def split: list.splits)

lemma steps_fault_point: "steps (frame S) fault_point"
  by (rule stepsI) (simp add: fault_point_def frame_def split: list.splits)

lemma steps_read_clock: "steps (frame S) read_clock"
  by (rule stepsI) (simp add: read_clock_def frame_advance)

lemma steps_get_ai_available: "steps (frame S) get_ai_available"
  by (rule stepsI) (simp add: get_ai_available_def frame_refl)

lemma steps_make_openai_request: "Backend \<in> S \<Longrightarrow> steps (frame S) make_openai_request"
  by (rule stepsI)
     (simp add: make_openai_request_def frame_def split: list.splits ai_reply.splits)

text \<open>A pure read or write of the world after a fault point.\<close>

lemma steps_pure: "(\<And>w. frame S w (snd (g w))) \<Longrightarrow> steps (frame S) (io_bind fault_point (\<lambda>_. g))"
  by (rule steps_bind [OF steps_fault_point]) (rule stepsI)

lemma steps_clocked:
  "(\<And>t w. frame S w (snd (g t w))) \<Longrightarrow>
   steps (frame S) (io_bind fault_point (\<lambda>_. io_bind read_clock (\<lambda>t. g t)))"
  by (intro steps_bind steps_fault_point steps_read_clock) (rule stepsI)

lemma steps_conversation_filter_first: "steps (frame S) (conversation_filter_first u t)"
  unfolding conversation_filter_first_def by (rule steps_pure) (simp add: frame_refl)

lemma steps_conversation_create:
  "Conversations \<in> S \<Longrightarrow> steps (frame S) (conversation_create u ctype model)"
  unfolding conversation_create_def by (rule steps_clocked) (simp add: frame_def Let_def)

lemma steps_conversation_get: "steps (frame S) (conversation_get cid)"
  unfolding conversation_get_def
  by (rule steps_pure) (simp add: frame_refl split: option.splits)

lemma steps_conversation_save: "Conversations \<in> S \<Longrightarrow> steps (frame S) (conversation_save c)"
  unfolding conversation_save_def by (rule steps_pure) (simp add: frame_def)

lemma steps_is_expired: "steps (frame S) (is_expired c)"
  unfolding is_expired_def by (intro steps_rules steps_read_clock)

lemma steps_message_count: "steps (frame S) (message_count c)"
  unfolding message_count_def by (rule steps_pure) (simp add: frame_refl)

lemma steps_message_create: "Messages \<in> S \<Longrightarrow> steps (frame S) (message_create row)"
  unfolding message_create_def by (rule steps_clocked) (simp add: frame_def Let_def)

lemma steps_message_save: "Messages \<in> S \<Longrightarrow> steps (frame S) (message_save m)"
  unfolding message_save_def by (rule steps_pure) (simp add: frame_def)

lemma steps_get_last_messages: "steps (frame S) (get_last_messages c n)"
  unfolding get_last_messages_def by (rule steps_pure) (simp add: frame_refl)

lemma steps_set_context: "Contexts \<in> S \<Longrightarrow> steps (frame S) (set_context c ctype ckey v rel)"
  unfolding set_context_def by (rule steps_pure) (simp add: frame_def Let_def)

lemma steps_get_context_first: "steps (frame S) (get_context_first c ctype ckey)"
  unfolding get_context_first_def by (rule steps_pure) (simp add: frame_refl)

lemma steps_get_context_all: "steps (frame S) (get_context_all c)"
  unfolding get_context_all_def by (rule steps_pure) (simp add: frame_refl)

lemma steps_user_profile_get: "steps (frame S) (user_profile_get u)"
  unfolding user_profile_get_def
  by (rule steps_pure) (simp add: frame_refl split: option.splits)

lemma steps_recent_workout_sessions: "steps (frame S) (recent_workout_sessions u t)"
  unfolding recent_workout_sessions_def by (rule steps_pure) (simp add: frame_refl)

lemma steps_cache_get: "steps (frame S) (cache_get k)"
  unfolding cache_get_def by (rule steps_clocked) (simp add: frame_refl)

lemma steps_cache_set: "Cache \<in> S \<Longrightarrow> steps (frame S) (cache_set k payload ttl)"
  unfolding cache_set_def by (rule steps_clocked) (simp add: frame_def)

lemmas steps_leaves =
  steps_fault_point steps_read_clock steps_get_ai_available steps_make_openai_request
  steps_conversation_filter_first steps_conversation_create steps_conversation_get
  steps_conversation_save steps_is_expired steps_message_count steps_message_create
  steps_message_save steps_get_last_messages steps_set_context steps_get_context_first
  steps_get_context_all steps_user_profile_get steps_recent_workout_sessions
  steps_cache_get steps_cache_set

lemma steps_ai_intent_analysis:
  "Backend \<in> S \<Longrightarrow> steps (frame S) (ai_intent_analysis self message conversation)"
  unfolding ai_intent_analysis_def by (intro steps_rules steps_leaves) simp_all

lemma steps_analyze_message_intent:
  "Backend \<in> S \<Longrightarrow> Cache \<in> S \<Longrightarrow>
   steps (frame S) (analyze_message_intent self message conversation)"
  unfolding analyze_message_intent_def
  by (intro steps_rules steps_leaves steps_ai_intent_analysis) simp_all

lemma steps_build_conversation_context: "steps (frame S) (build_conversation_context c)"
  unfolding build_conversation_context_def by (intro steps_rules steps_leaves)

lemma steps_generate_ai_response:
  "Backend \<in> S \<Longrightarrow> steps (frame S) (generate_ai_response self c message a)"
  unfolding generate_ai_response_def
  by (intro steps_rules steps_leaves steps_build_conversation_context) simp_all

lemma steps_ai_welcome_message:
  "Backend \<in> S \<Longrightarrow> steps (frame S) (ai_welcome_message user_name ctype context_data)"
  unfolding ai_welcome_message_def by (intro steps_rules steps_leaves) simp_all

lemma steps_generate_welcome_message:
  "Backend \<in> S \<Longrightarrow> steps (frame S) (generate_welcome_message self c)"
  unfolding generate_welcome_message_def
  by (intro steps_rules steps_leaves steps_build_conversation_context steps_ai_welcome_message)
     simp_all

lemma steps_save_user_message: "Messages \<in> S \<Longrightarrow> steps (frame S) (save_user_message c body)"
  unfolding save_user_message_def by (rule steps_message_create)

lemma steps_save_ai_message:
  "Messages \<in> S \<Longrightarrow> steps (frame S) (save_ai_message self c body rt score i)"
  unfolding save_ai_message_def by (rule steps_message_create)


lemma steps_update_conversation_context:
  "Contexts \<in> S \<Longrightarrow> steps (frame S) (update_conversation_context c message a)"
  unfolding update_conversation_context_def
  by (intro steps_rules steps_leaves) simp_all

lemma steps_process_user_message_try:
  "{Messages, Contexts, Cache, Backend} \<subseteq> S \<Longrightarrow>
   steps (frame S) (process_user_message_try self start_time cid message)"
  unfolding process_user_message_try_def
  by (intro steps_rules steps_leaves steps_save_user_message steps_save_ai_message
        steps_analyze_message_intent steps_update_conversation_context
        steps_generate_ai_response) simp_all

lemma steps_process_user_message:
  "{Messages, Contexts, Cache, Backend} \<subseteq> S \<Longrightarrow>
   steps (frame S) (process_user_message self cid message)"
  unfolding process_user_message_def
  by (intro steps_rules steps_leaves steps_process_user_message_try) simp_all


section \<open>What the collaborators return when no call raises\<close>

lemma advance_fields [simp]:
  "conversations (advance w) = conversations w"
  "messages (advance w) = messages w"
  "contexts (advance w) = contexts w"
  "user_profiles (advance w) = user_profiles w"
  "workout_sessions (advance w) = workout_sessions w"
  "cache (advance w) = cache w"
  "next_conversation_id (advance w) = next_conversation_id w"
  "next_message_id (advance w) = next_message_id w"
  "faults (advance w) = faults w"
  "ai_available (advance w) = ai_available w"
  "ai_replies (advance w) = ai_replies w"
  by (simp_all add: advance_def split: list.splits)

lemma now_advance: "now w \<le> now (advance w)"
  by (simp add: advance_def split: list.splits)

lemma fault_point_ok: "faults w = [] \<Longrightarrow> fault_point w = (Inr (), w)"
  by (simp add: fault_point_def)

lemma io_bind_Inr: "m w = (Inr x, w') \<Longrightarrow> io_bind m f w = f x w'"
  by (simp add: io_bind_def)

lemma io_bind_Inl: "m w = (Inl e, w') \<Longrightarrow> io_bind m f w = (Inl e, w')"
  by (simp add: io_bind_def)

lemma io_catch_Inr: "m w = (Inr x, w') \<Longrightarrow> io_catch m h w = (Inr x, w')"
  by (simp add: io_catch_def)

lemma io_catch_Inl: "m w = (Inl e, w') \<Longrightarrow> io_catch m h w = h e w'"
  by (simp add: io_catch_def)

lemma read_clock_eq: "read_clock w = (Inr (now (advance w)), advance w)"
  by (simp add: read_clock_def)

lemma conversation_get_ok:
  "faults w = [] \<Longrightarrow> find (\<lambda>c. conv_id c = cid) (conversations w) = Some c \<Longrightarrow>
   conversation_get cid w = (Inr c, w)"
  by (simp add: conversation_get_def io_bind_def fault_point_ok)

lemma conversation_get_missing:
  "faults w = [] \<Longrightarrow> find (\<lambda>c. conv_id c = cid) (conversations w) = None \<Longrightarrow>
   conversation_get cid w = (Inl ConversationDoesNotExist, w)"
  by (simp add: conversation_get_def io_bind_def fault_point_ok)

lemma is_expired_eq:
  "is_expired c w = (Inr (conversation_timeout < now (advance w) - created_at c), advance w)"
  by (simp add: is_expired_def io_bind_def read_clock_def io_return_def)



text \<open>The functions that catch every exception always return.\<close>

lemma io_catch_returns:
  assumes "\<And>e w'. \<exists>x w''. h e w' = (Inr x, w'')"
  shows "\<exists>x w'. io_catch m h w = (Inr x, w')"
proof (cases "m w")
  case (Pair r w')
  then show ?thesis using assms by (cases r) (auto simp: io_catch_def)
qed







lemma process_user_message_returns:
  "\<exists>r w'. process_user_message self cid message w = (Inr r, w')"
proof -
  have "\<exists>r w'. io_catch m (\<lambda>e. case e of ConversationDoesNotExist \<Rightarrow> io_return not_found_result
              | _ \<Rightarrow> io_return processing_error_result) w0 = (Inr r, w')" for m w0
    by (rule io_catch_returns) (simp add: io_return_def split: exn.splits)
  then show ?thesis
    by (simp add: process_user_message_def io_bind_def read_clock_def)
qed


section \<open>The rule-based classifier returns the first intent of maximal score\<close>

lemma contains_iff: "contains s k \<longleftrightarrow> (\<exists>u v. s = u @ k @ v)"
proof (induction s)
  case Nil
  show ?case by auto
next
  case (Cons c cs)
  have pre: "take (length k) (c # cs) = k \<longleftrightarrow> (\<exists>v. c # cs = k @ v)"
    by (metis append_eq_conv_conj append_take_drop_id)
  have "(\<exists>u v. c # cs = u @ k @ v) \<longleftrightarrow> (\<exists>v. c # cs = k @ v) \<or> (\<exists>u v. cs = u @ k @ v)"
  proof
    assume "\<exists>u v. c # cs = u @ k @ v"
    then obtain u v where uv: "c # cs = u @ k @ v" by blast
    show "(\<exists>v. c # cs = k @ v) \<or> (\<exists>u v. cs = u @ k @ v)"
    proof (cases u)
      case Nil
      with uv show ?thesis by auto
    next
      case (Cons a u')
      with uv have "cs = u' @ k @ v" by simp
      then show ?thesis by blast
    qed
  next
    assume "(\<exists>v. c # cs = k @ v) \<or> (\<exists>u v. cs = u @ k @ v)"
    then show "\<exists>u v. c # cs = u @ k @ v"
    proof
      assume "\<exists>v. c # cs = k @ v"
      then obtain v where "c # cs = [] @ k @ v" by auto
      then show ?thesis by blast
    next
      assume "\<exists>u v. cs = u @ k @ v"
      then obtain u v where "cs = u @ k @ v" by blast
      then have "c # cs = (c # u) @ k @ v" by simp
      then show ?thesis by blast
    qed
  qed
  with pre Cons show ?case by simp
qed

lemma keyword_hits_card:
  "distinct kws \<Longrightarrow> keyword_hits kws m = card {k \<in> set kws. \<exists>u v. m = u @ k @ v}"
proof -
  assume d: "distinct kws"
  have "{k. contains m k} \<inter> set kws = {k \<in> set kws. \<exists>u v. m = u @ k @ v}"
    by (auto simp: contains_iff)
  with d show ?thesis
    by (simp add: keyword_hits_def distinct_length_filter)
qed

lemma max_by_score_split:
  "\<exists>pre e post. best # xs = pre @ e # post \<and> max_by_score best xs = e \<and>
     (\<forall>x\<in>set pre. snd x < snd e) \<and> (\<forall>x\<in>set post. snd x \<le> snd e)"
proof (induction xs arbitrary: best)
  case Nil
  have "[best] = [] @ best # []" by simp
  then show ?case by fastforce
next
  case (Cons x xs)
  show ?case
  proof (cases "snd best < snd x")
    case True
    from Cons.IH [of x] obtain pre e post where
      d: "x # xs = pre @ e # post" and m: "max_by_score x xs = e"
      and lt: "\<forall>y\<in>set pre. snd y < snd e" and le: "\<forall>y\<in>set post. snd y \<le> snd e"
      by blast
    have "snd x \<le> snd e"
    proof (cases pre)
      case Nil
      with d show ?thesis by simp
    next
      case (Cons p ps)
      with d have "x \<in> set pre" by simp
      with lt show ?thesis by auto
    qed
    with True have "snd best < snd e" by simp
    with lt have lt': "\<forall>y\<in>set (best # pre). snd y < snd e" by simp
    from d have "best # x # xs = (best # pre) @ e # post" by simp
    moreover from True m have "max_by_score best (x # xs) = e" by simp
    ultimately show ?thesis using lt' le by blast
  next
    case False
    from Cons.IH [of best] obtain pre e post where
      d: "best # xs = pre @ e # post" and m: "max_by_score best xs = e"
      and lt: "\<forall>y\<in>set pre. snd y < snd e" and le: "\<forall>y\<in>set post. snd y \<le> snd e"
      by blast
    from False m have m': "max_by_score best (x # xs) = e" by simp
    show ?thesis
    proof (cases pre)
      case Nil
      with d have e: "e = best" and p: "post = xs" by simp_all
      have "best # x # xs = [] @ e # (x # xs)" using e by simp
      moreover have "\<forall>y\<in>set (x # xs). snd y \<le> snd e" using le p e False by auto
      ultimately show ?thesis using m' by (metis empty_iff empty_set)
    next
      case (Cons p ps)
      with d have pb: "p = best" and xs: "xs = ps @ e # post" by simp_all
      from lt Cons pb have "snd best < snd e" by simp
      with False have "snd x < snd e" by simp
      with lt Cons have lt': "\<forall>y\<in>set (best # x # ps). snd y < snd e" using pb by auto
      have "best # x # xs = (best # x # ps) @ e # post" using xs by simp
      then show ?thesis using m' lt' le by blast
    qed
  qed
qed

lemma intent_keywords_distinct: "\<forall>e\<in>set intent_keywords. distinct (snd e) \<and> snd e \<noteq> []"
  by (simp add: intent_keywords_def)

lemma filter_eq_append_ConsD:
  "filter P ys = us @ x # vs \<Longrightarrow>
     \<exists>ys1 ys2. ys = ys1 @ x # ys2 \<and> filter P ys1 = us \<and> filter P ys2 = vs \<and> P x"
proof (induction us arbitrary: ys)
  case Nil
  then have "filter P ys = x # vs" by simp
  then obtain a b where "ys = a @ x # b" "\<forall>u\<in>set a. \<not> P u" "P x" "vs = filter P b"
    by (auto simp: filter_eq_Cons_iff)
  then show ?case by (intro exI [of _ a] exI [of _ b]) simp
next
  case (Cons u us)
  then have "filter P ys = u # (us @ x # vs)" by simp
  then obtain a b where ab: "ys = a @ u # b" "\<forall>w\<in>set a. \<not> P w" "P u" "us @ x # vs = filter P b"
    by (auto simp: filter_eq_Cons_iff)
  from Cons.IH [of b] ab(4) obtain b1 b2 where
    b: "b = b1 @ x # b2" "filter P b1 = us" "filter P b2 = vs" "P x" by metis
  have "ys = (a @ u # b1) @ x # b2" using ab(1) b(1) by simp
  moreover have "filter P (a @ u # b1) = u # us" using ab(2,3) b(2) by simp
  ultimately show ?case using b(3,4) by blast
qed

text \<open>
  Claim C4. For a message with lower-cased text \<open>m\<close>, the score \<open>sc e\<close> of a table entry
  \<open>e\<close> is the number of its keywords that occur in \<open>m\<close> as substrings, divided by the
  number of its keywords. If every score is zero, \<^verbatim>\<open>_rule_based_intent_analysis\<close> answers
  \<open>general_question\<close> with confidence one half. Otherwise it answers the entry \<open>e\<close> of the
  table whose score is maximal, the first such entry in table order (every entry before
  it scores strictly less, every entry after it at most as much), with that score as
  confidence. The secondary intents are the other intents, in table order, whose score is
  strictly above one fifth.
\<close>

theorem rule_based_intent_analysis_maximal_score:
  fixes message :: string
  defines "m \<equiv> py_lower message"
  defines "sc \<equiv> \<lambda>e :: string \<times> string list.
             (of_nat (card {k \<in> set (snd e). \<exists>u v. m = u @ k @ v}) :: rat) / of_nat (length (snd e))"
  defines "a \<equiv> rule_based_intent_analysis message"
  shows "(if \<forall>e\<in>set intent_keywords. sc e = 0
          then intent a = Some ''general_question'' \<and> confidence a = Some (1 / 2)
          else \<exists>pre e post. intent_keywords = pre @ e # post \<and>
                 intent a = Some (fst e) \<and> confidence a = Some (sc e) \<and>
                 (\<forall>x\<in>set pre. sc x < sc e) \<and> (\<forall>x\<in>set post. sc x \<le> sc e))
       \<and> secondary_intents a =
           Some (map fst (filter (\<lambda>e. Some (fst e) \<noteq> intent a \<and> 1 / 5 < sc e) intent_keywords))"
proof -
  define P where "P = (\<lambda>e :: string \<times> string list. 0 < keyword_hits (snd e) m)"
  define g where "g = (\<lambda>e :: string \<times> string list. (fst e, sc e))"
  have hits: "keyword_hits (snd e) m = card {k \<in> set (snd e). \<exists>u v. m = u @ k @ v}"
    and ne: "snd e \<noteq> []" if "e \<in> set intent_keywords" for e
    using that intent_keywords_distinct keyword_hits_card by auto
  have sc_pos: "0 < sc e \<longleftrightarrow> P e" and sc_zero: "sc e = 0 \<longleftrightarrow> \<not> P e"
    if "e \<in> set intent_keywords" for e
    using hits [OF that] ne [OF that] by (auto simp: sc_def P_def zero_less_divide_iff)
  have sc_nonneg: "0 \<le> sc e" for e by (simp add: sc_def)
  have scores: "intent_scores m = map g (filter P intent_keywords)"
    unfolding intent_scores_def
  proof -
    have "filter (\<lambda>(name, kws). 0 < keyword_hits kws m) intent_keywords = filter P intent_keywords"
      by (rule filter_cong) (auto simp: P_def)
    moreover have "map (\<lambda>(name, kws). (name, of_nat (keyword_hits kws m) / of_nat (length kws)))
        (filter P intent_keywords) = map g (filter P intent_keywords)"
    proof (rule map_cong [OF refl])
      fix e assume "e \<in> set (filter P intent_keywords)"
      then have "e \<in> set intent_keywords" by simp
      from hits [OF this]
      show "(case e of (name, kws) \<Rightarrow> (name, of_nat (keyword_hits kws m) / of_nat (length kws))) = g e"
        by (simp add: g_def sc_def case_prod_beta)
    qed
    ultimately show "map (\<lambda>(name, kws). (name, of_nat (keyword_hits kws m) / of_nat (length kws)))
        (filter (\<lambda>(name, kws). 0 < keyword_hits kws m) intent_keywords) = map g (filter P intent_keywords)"
      by simp
  qed
  define main where "main = (case intent_scores m of [] \<Rightarrow> (''general_question'', 1 / 2)
                             | x # xs \<Rightarrow> max_by_score x xs)"
  have a_intent: "intent a = Some (fst main)" and a_conf: "confidence a = Some (snd main)"
    and a_sec: "secondary_intents a =
      Some (map fst (filter (\<lambda>(name, score). name \<noteq> fst main \<and> 1 / 5 < score) (intent_scores m)))"
    by (simp_all add: a_def rule_based_intent_analysis_def Let_def main_def m_def)
  have part1: "(if \<forall>e\<in>set intent_keywords. sc e = 0
          then intent a = Some ''general_question'' \<and> confidence a = Some (1 / 2)
          else \<exists>pre e post. intent_keywords = pre @ e # post \<and>
                 intent a = Some (fst e) \<and> confidence a = Some (sc e) \<and>
                 (\<forall>x\<in>set pre. sc x < sc e) \<and> (\<forall>x\<in>set post. sc x \<le> sc e))"
  proof (cases "\<forall>e\<in>set intent_keywords. sc e = 0")
    case True
    then have "filter P intent_keywords = []" using sc_zero by (auto simp: filter_empty_conv)
    then have "main = (''general_question'', 1 / 2)" by (simp add: main_def scores)
    with True show ?thesis by (simp add: a_intent a_conf)
  next
    case False
    then obtain e0 where "e0 \<in> set intent_keywords" "P e0" using sc_zero by blast
    then have "filter P intent_keywords \<noteq> []" by (auto simp: filter_empty_conv)
    then obtain y ys where f: "filter P intent_keywords = y # ys" by (cases "filter P intent_keywords") auto
    then have main_eq: "main = max_by_score (g y) (map g ys)" by (simp add: main_def scores)
    from max_by_score_split [of "g y" "map g ys"] obtain pre' e' post' where
      d: "g y # map g ys = pre' @ e' # post'" and mx: "max_by_score (g y) (map g ys) = e'"
      and lt: "\<forall>x\<in>set pre'. snd x < snd e'" and le: "\<forall>x\<in>set post'. snd x \<le> snd e'"
      by blast
    from d have "map g (y # ys) = pre' @ e' # post'" by simp
    then have "\<exists>fp fe fpost. y # ys = fp @ fe # fpost \<and> map g fp = pre' \<and> g fe = e' \<and>
        map g fpost = post'"
      unfolding map_eq_append_conv map_eq_Cons_conv by blast
    then obtain fp fe fpost where
      fd: "y # ys = fp @ fe # fpost" and fp: "map g fp = pre'" and fe: "g fe = e'"
      and fpost: "map g fpost = post'"
      by blast
    from f fd have "filter P intent_keywords = fp @ fe # fpost" by simp
    from filter_eq_append_ConsD [OF this] obtain pre post where
      t: "intent_keywords = pre @ fe # post" and pp: "filter P pre = fp"
      and pq: "filter P post = fpost" and Pe: "P fe" by blast
    have sets: "set intent_keywords = set pre \<union> insert fe (set post)"
      by (subst t) simp
    have fe_in: "fe \<in> set intent_keywords" by (simp add: sets)
    have pos: "0 < sc fe" using sc_pos [OF fe_in] Pe by simp
    have sc_e': "snd e' = sc fe" and fst_e': "fst e' = fst fe" using fe by (auto simp: g_def)
    have "sc x < sc fe" if "x \<in> set pre" for x
    proof (cases "P x")
      case True
      with that pp have "x \<in> set fp" by auto
      with fp have "g x \<in> set pre'" by auto
      with lt have "snd (g x) < snd e'" by blast
      then show ?thesis by (simp add: g_def sc_e')
    next
      case False
      from that have "x \<in> set intent_keywords" by (simp add: sets)
      with False sc_zero have "sc x = 0" by blast
      with pos show ?thesis by simp
    qed
    moreover have "sc x \<le> sc fe" if "x \<in> set post" for x
    proof (cases "P x")
      case True
      with that pq have "x \<in> set fpost" by auto
      with fpost have "g x \<in> set post'" by auto
      with le have "snd (g x) \<le> snd e'" by blast
      then show ?thesis by (simp add: g_def sc_e')
    next
      case False
      from that have "x \<in> set intent_keywords" by (simp add: sets)
      with False sc_zero have "sc x = 0" by blast
      with pos show ?thesis by simp
    qed
    moreover have "intent a = Some (fst fe)" "confidence a = Some (sc fe)"
      using main_eq mx sc_e' fst_e' by (simp_all add: a_intent a_conf)
    ultimately have "\<exists>pre e post. intent_keywords = pre @ e # post \<and>
                 intent a = Some (fst e) \<and> confidence a = Some (sc e) \<and>
                 (\<forall>x\<in>set pre. sc x < sc e) \<and> (\<forall>x\<in>set post. sc x \<le> sc e)"
      using t by blast
    then show ?thesis by (simp only: False if_False)
  qed
  have "filter (\<lambda>(name, score). name \<noteq> fst main \<and> 1 / 5 < score) (map g (filter P intent_keywords))
      = map g (filter (\<lambda>e. fst e \<noteq> fst main \<and> 1 / 5 < sc e) (filter P intent_keywords))"
    by (simp add: filter_map o_def g_def case_prod_beta)
  also have "filter (\<lambda>e. fst e \<noteq> fst main \<and> 1 / 5 < sc e) (filter P intent_keywords)
      = filter (\<lambda>e. fst e \<noteq> fst main \<and> 1 / 5 < sc e) intent_keywords"
  proof -
    have "filter (\<lambda>e. P e \<and> fst e \<noteq> fst main \<and> 1 / 5 < sc e) intent_keywords
      = filter (\<lambda>e. fst e \<noteq> fst main \<and> 1 / 5 < sc e) intent_keywords"
    proof (rule filter_cong [OF refl])
      fix e assume "e \<in> set intent_keywords"
      from sc_pos [OF this] show "(P e \<and> fst e \<noteq> fst main \<and> 1 / 5 < sc e) = (fst e \<noteq> fst main \<and> 1 / 5 < sc e)"
        by auto
    qed
    then show ?thesis by (simp add: conj_commute)
  qed
  finally have "secondary_intents a =
      Some (map fst (filter (\<lambda>e. fst e \<noteq> fst main \<and> 1 / 5 < sc e) intent_keywords))"
    by (simp add: a_sec scores o_def g_def)
  then have part2: "secondary_intents a =
           Some (map fst (filter (\<lambda>e. Some (fst e) \<noteq> intent a \<and> 1 / 5 < sc e) intent_keywords))"
    by (simp add: a_intent)
  from part1 part2 show ?thesis by blast
qed


text \<open>
  The theorem at the message \<open>Sinto muita dor no joelho\<close>: the keyword \<open>dor\<close> occurs, so
  not every score is zero, and the answer is \<open>injury_concern\<close> with confidence one fifth
  and no secondary intent.
\<close>

theorem rule_based_intent_analysis_maximal_score_witness:
  fixes m sc a
  defines "m \<equiv> py_lower ''Sinto muita dor no joelho''"
  defines "sc \<equiv> \<lambda>e :: string \<times> string list.
             (of_nat (card {k \<in> set (snd e). \<exists>u v. m = u @ k @ v}) :: rat) / of_nat (length (snd e))"
  defines "a \<equiv> rule_based_intent_analysis ''Sinto muita dor no joelho''"
  shows "\<not> (\<forall>e\<in>set intent_keywords. sc e = 0) \<and>
         (\<exists>pre e post. intent_keywords = pre @ e # post \<and>
                 intent a = Some (fst e) \<and> confidence a = Some (sc e) \<and>
                 (\<forall>x\<in>set pre. sc x < sc e) \<and> (\<forall>x\<in>set post. sc x \<le> sc e)) \<and>
         intent a = Some ''injury_concern'' \<and> confidence a = Some (1 / 5) \<and>
         secondary_intents a = Some []"
proof -
  define inj where "inj = (''injury_concern'',
     [''dor'', ''les'' @ [CHR 0xC3, CHR 0xA3] @ ''o'', ''machuca'', ''problema'', ''desconforto''])"
  have mem: "inj \<in> set intent_keywords" by (simp add: inj_def intent_keywords_def)
  have "keyword_hits (snd inj) m = 1" unfolding inj_def m_def by code_simp
  moreover have "distinct (snd inj)" by (simp add: inj_def)
  ultimately have "card {k \<in> set (snd inj). \<exists>u v. m = u @ k @ v} = 1"
    using keyword_hits_card [of "snd inj" m] by simp
  then have "sc inj \<noteq> 0" by (simp add: sc_def inj_def)
  with mem have hyp: "\<not> (\<forall>e\<in>set intent_keywords. sc e = 0)" by blast
  have ex: "\<exists>pre e post. intent_keywords = pre @ e # post \<and>
                 intent a = Some (fst e) \<and> confidence a = Some (sc e) \<and>
                 (\<forall>x\<in>set pre. sc x < sc e) \<and> (\<forall>x\<in>set post. sc x \<le> sc e)"
    using rule_based_intent_analysis_maximal_score [of "''Sinto muita dor no joelho''"] hyp
    unfolding m_def sc_def a_def by (simp only: if_False simp_thms) 
  have "intent a = Some ''injury_concern''" unfolding a_def by code_simp
  moreover have "confidence a = Some (1 / 5)" unfolding a_def by code_simp
  moreover have "secondary_intents a = Some []" unfolding a_def by code_simp
  ultimately show ?thesis using hyp ex by blast
qed

section \<open>Expired conversations\<close>

text \<open>
  Claim C1. Let the store hold a conversation with the given id whose age, at the moment
  \<^verbatim>\<open>process_user_message\<close> is called, exceeds the timeout of 24 hours; its status is
  arbitrary. Then the call leaves the stored messages as they were, whatever the
  collaborators do, and when the lookup of the conversation does not raise it returns
  the result \<open>Conversa expirada\<close> with its suggestion.
\<close>

theorem process_user_message_expired:
  assumes found: "find (\<lambda>x. conv_id x = cid) (conversations w) = Some c"
    and old: "conversation_timeout < now w - created_at c"
  shows "messages (snd (process_user_message self cid message w)) = messages w \<and>
         (\<not> (faults w \<noteq> [] \<and> hd (faults w)) \<longrightarrow>
            fst (process_user_message self cid message w) = Inr expired_result) \<and>
         dict_get expired_result ''error'' = Some (PStr ''Conversa expirada'') \<and>
         dict_get expired_result ''suggestion'' \<noteq> None"
proof -
  define w1 where "w1 = advance w"
  have c1: "find (\<lambda>x. conv_id x = cid) (conversations w1) = Some c"
    using found by (simp add: w1_def)
  have t1: "now w \<le> now w1" by (simp add: w1_def now_advance)
  have run: "process_user_message self cid message w =
      io_catch (process_user_message_try self (now w1) cid message)
         (\<lambda>e. case e of ConversationDoesNotExist \<Rightarrow> io_return not_found_result
              | _ \<Rightarrow> io_return processing_error_result) w1"
    by (simp add: process_user_message_def io_bind_def read_clock_def w1_def)
  have expired_at: "conversation_timeout < now (advance v) - created_at c" if "now v = now w1" for v
    using old t1 that now_advance [of v] by simp
  show ?thesis
  proof (cases "faults w \<noteq> [] \<and> hd (faults w)")
    case True
    then obtain fs where fs: "faults w1 = True # fs" by (cases "faults w") (auto simp: w1_def)
    then have "conversation_get cid w1 = (Inl OtherException, w1\<lparr>faults := fs\<rparr>)"
      by (simp add: conversation_get_def io_bind_def fault_point_def)
    then have "process_user_message_try self (now w1) cid message w1 = (Inl OtherException, w1\<lparr>faults := fs\<rparr>)"
      by (simp add: process_user_message_try_def io_bind_Inl)
    then have "process_user_message self cid message w = (Inr processing_error_result, w1\<lparr>faults := fs\<rparr>)"
      by (simp add: run io_catch_Inl io_return_def)
    with True show ?thesis by (simp add: w1_def expired_result_def dict_get_def)
  next
    case False
    define v where "v = (case faults w1 of [] \<Rightarrow> w1 | f # fs \<Rightarrow> w1\<lparr>faults := fs\<rparr>)"
    have fp: "fault_point w1 = (Inr (), v)"
      using False by (cases "faults w") (auto simp: fault_point_def v_def w1_def)
    have v_now: "now v = now w1" and v_msgs: "messages v = messages w"
      and v_conv: "conversations v = conversations w1"
      by (simp_all add: v_def w1_def split: list.splits)
    have "conversation_get cid w1 = (Inr c, v)"
      using fp c1 v_conv by (simp add: conversation_get_def io_bind_def)
    then have "process_user_message_try self (now w1) cid message w1 = (Inr expired_result, advance v)"
      using expired_at [OF v_now]
      by (simp add: process_user_message_try_def io_bind_Inr is_expired_eq io_return_def)
    then have "process_user_message self cid message w = (Inr expired_result, advance v)"
      by (simp add: run io_catch_Inr)
    with False v_msgs show ?thesis by (simp add: expired_result_def dict_get_def)
  qed
qed

text \<open>The theorem on a completed conversation created 25 hours before the call: the
  result is the expired one and no message is stored.\<close>

theorem process_user_message_expired_witness:
  fixes c w
  defines "c \<equiv> \<lparr> conv_id = 1, conv_user = \<lparr> user_id = 7, first_name = ''Ana'' \<rparr>,
                 conversation_type = ''general_fitness'', status = ''completed'',
                 created_at = 0, ai_model_used = ''gpt-3.5-turbo'',
                 user_satisfaction_rating = None \<rparr>"
  defines "w \<equiv> \<lparr> conversations = [c], messages = [], contexts = [], user_profiles = [],
                 workout_sessions = [], cache = [], next_conversation_id = 2,
                 next_message_id = 1, now = hours 25, ticks = [5, 5], faults = [],
                 ai_available = False, ai_replies = [] \<rparr>"
  shows "find (\<lambda>x. conv_id x = 1) (conversations w) = Some c \<and>
         conversation_timeout < now w - created_at c \<and>
         messages (snd (process_user_message
            \<lparr> openai_model = None, str_hash = (\<lambda>s. int (length s)), json_loads = (\<lambda>s. None) \<rparr>
            1 ''Oi'' w)) = [] \<and>
         fst (process_user_message
            \<lparr> openai_model = None, str_hash = (\<lambda>s. int (length s)), json_loads = (\<lambda>s. None) \<rparr>
            1 ''Oi'' w) = Inr expired_result"
proof -
  have f: "find (\<lambda>x. conv_id x = 1) (conversations w) = Some c" by (simp add: w_def c_def)
  have o: "conversation_timeout < now w - created_at c"
    by (simp add: w_def c_def conversation_timeout_def hours_def)
  have nf: "\<not> (faults w \<noteq> [] \<and> hd (faults w))" by (simp add: w_def)
  have m: "messages w = []" by (simp add: w_def)
  from process_user_message_expired [OF f o] nf m f o show ?thesis by simp
qed


section \<open>Resuming a conversation\<close>

text \<open>
  Claim C3. Let the user have an active conversation whose age, when
  \<^verbatim>\<open>start_conversation\<close> reads the clock, is below two hours, let no initial message be
  given and let the query of the store not raise. Then the result has status
  \<open>resumed\<close> and carries the id and the type of an active conversation of this user that
  is at most two hours old (the given one, if the user has no other), and the
  conversations, messages, context records and cache entries are what they were: no
  conversation and no message is created.
\<close>

theorem start_conversation_resumes:
  assumes nf: "faults w = []"
    and mem: "c \<in> set (conversations w)"
    and usr: "user_id (conv_user c) = user_id u"
    and act: "status c = ''active''"
    and young: "now (advance w) - created_at c < hours 2"
  shows "\<exists>rc w'. start_conversation self u ctype None w =
             (Inr [(''conversation_id'', PInt (int (conv_id rc))),
                   (''status'', PStr ''resumed''),
                   (''message'', PStr ''Continuando conversa anterior...''),
                   (''conversation_type'', PStr (conversation_type rc)),
                   (''context_loaded'', PBool True)], w') \<and>
           rc \<in> set (conversations w) \<and> user_id (conv_user rc) = user_id u \<and>
           status rc = ''active'' \<and> now (advance w) - created_at rc \<le> hours 2 \<and>
           ((\<forall>x\<in>set (conversations w).
               user_id (conv_user x) = user_id u \<and> status x = ''active'' \<and>
               now (advance w) - created_at x \<le> hours 2 \<longrightarrow> x = c) \<longrightarrow> rc = c) \<and>
           conversations w' = conversations w \<and> messages w' = messages w \<and>
           contexts w' = contexts w \<and> cache w' = cache w \<and>
           next_conversation_id w' = next_conversation_id w \<and>
           next_message_id w' = next_message_id w"
proof -
  define P where "P = (\<lambda>x :: conversation. user_id (conv_user x) = user_id u \<and> status x = ''active'' \<and>
                          now (advance w) - hours 2 \<le> created_at x)"
  have "P c" using usr act young by (simp add: P_def)
  with mem have "find P (conversations w) \<noteq> None" by (auto simp: find_None_iff)
  then obtain rc where rc: "find P (conversations w) = Some rc" by blast
  then have rc_in: "rc \<in> set (conversations w)" and rc_P: "P rc"
    by (auto simp: find_Some_iff)
  have q: "conversation_filter_first u (now (advance w) - hours 2) (advance w) = (Inr (Some rc), advance w)"
    using nf rc by (simp add: conversation_filter_first_def io_bind_def fault_point_ok P_def)
  have "start_conversation_try self u ctype None w =
          (Inr [(''conversation_id'', PInt (int (conv_id rc))),
                (''status'', PStr ''resumed''),
                (''message'', PStr ''Continuando conversa anterior...''),
                (''conversation_type'', PStr (conversation_type rc)),
                (''context_loaded'', PBool True)], advance w)"
    unfolding start_conversation_try_def
    by (simp add: io_bind_def read_clock_def q truthy_str_def io_return_def)
  then have run: "start_conversation self u ctype None w =
          (Inr [(''conversation_id'', PInt (int (conv_id rc))),
                (''status'', PStr ''resumed''),
                (''message'', PStr ''Continuando conversa anterior...''),
                (''conversation_type'', PStr (conversation_type rc)),
                (''context_loaded'', PBool True)], advance w)"
    by (simp add: start_conversation_def io_catch_Inr)
  have only: "rc = c"
    if "\<forall>x\<in>set (conversations w).
               user_id (conv_user x) = user_id u \<and> status x = ''active'' \<and>
               now (advance w) - created_at x \<le> hours 2 \<longrightarrow> x = c"
    using that rc_in rc_P by (auto simp: P_def)
  from rc_P have "user_id (conv_user rc) = user_id u" "status rc = ''active''"
    "now (advance w) - created_at rc \<le> hours 2" by (auto simp: P_def)
  with run rc_in only show ?thesis by (intro exI [of _ rc] exI [of _ "advance w"]) simp
qed

text \<open>The theorem on a store with one active conversation of the user, created one hour
  before the call.\<close>

theorem start_conversation_resumes_witness:
  fixes c w u
  defines "u \<equiv> \<lparr> user_id = 7, first_name = ''Ana'' \<rparr>"
  defines "c \<equiv> \<lparr> conv_id = 1, conv_user = u,
                 conversation_type = ''motivation_chat'', status = ''active'',
                 created_at = 0, ai_model_used = ''gpt-3.5-turbo'',
                 user_satisfaction_rating = None \<rparr>"
  defines "w \<equiv> \<lparr> conversations = [c], messages = [], contexts = [], user_profiles = [],
                 workout_sessions = [], cache = [], next_conversation_id = 2,
                 next_message_id = 1, now = hours 1, ticks = [5], faults = [],
                 ai_available = True, ai_replies = [] \<rparr>"
  shows "faults w = [] \<and> c \<in> set (conversations w) \<and> user_id (conv_user c) = user_id u \<and>
         status c = ''active'' \<and> now (advance w) - created_at c < hours 2 \<and>
         (\<exists>w'. start_conversation
                 \<lparr> openai_model = None, str_hash = (\<lambda>s. int (length s)), json_loads = (\<lambda>s. None) \<rparr>
                 u ''general_fitness'' None w =
             (Inr [(''conversation_id'', PInt 1),
                   (''status'', PStr ''resumed''),
                   (''message'', PStr ''Continuando conversa anterior...''),
                   (''conversation_type'', PStr ''motivation_chat''),
                   (''context_loaded'', PBool True)], w') \<and>
             conversations w' = [c] \<and> messages w' = [])"
proof -
  have h: "faults w = []" "c \<in> set (conversations w)" "user_id (conv_user c) = user_id u"
    "status c = ''active''" "now (advance w) - created_at c < hours 2"
    by (simp_all add: w_def c_def u_def advance_def hours_def)
  have cs: "conversations w = [c]" "messages w = []" by (simp_all add: w_def)
  from start_conversation_resumes [OF h, of _ "''general_fitness''"]
  obtain rc w' where
    r: "start_conversation
                 \<lparr> openai_model = None, str_hash = (\<lambda>s. int (length s)), json_loads = (\<lambda>s. None) \<rparr>
                 u ''general_fitness'' None w =
             (Inr [(''conversation_id'', PInt (int (conv_id rc))),
                   (''status'', PStr ''resumed''),
                   (''message'', PStr ''Continuando conversa anterior...''),
                   (''conversation_type'', PStr (conversation_type rc)),
                   (''context_loaded'', PBool True)], w')"
    and rc: "rc \<in> set (conversations w)"
    and fr: "conversations w' = conversations w" "messages w' = messages w"
    by blast
  from rc cs have "rc = c" by simp
  then have "conv_id rc = 1" "conversation_type rc = ''motivation_chat''" by (simp_all add: c_def)
  with r fr cs h show ?thesis by auto
qed


section \<open>Ending a conversation and the top-level handlers\<close>

lemma find_SomeD: "find P xs = Some x \<Longrightarrow> x \<in> set xs \<and> P x"
  by (induction xs) (auto split: if_splits)

lemma end_conversation_try_ok:
  assumes nf: "faults w = []"
    and found: "find (\<lambda>x. conv_id x = cid) (conversations w) = Some c"
  shows "end_conversation_try cid rating w =
     (let c' = (if (case rating of None \<Rightarrow> False | Some r \<Rightarrow> r \<noteq> 0)
                then c\<lparr> status := ''completed'', user_satisfaction_rating := rating \<rparr>
                else c\<lparr> status := ''completed'' \<rparr>)
      in (Inr [(''conversation_ended'', PBool True),
               (''total_messages'',
                  PInt (int (length (filter (\<lambda>m. msg_conversation m = cid) (messages w))))),
               (''duration_minutes'', PFloat (of_int (now (advance w) - created_at c) / 60000000)),
               (''rating_saved'', PBool (rating \<noteq> None))],
          (advance w)\<lparr>conversations :=
             map (\<lambda>x. if conv_id x = cid then c' else x) (conversations w)\<rparr>))"
proof -
  from found have cid: "conv_id c = cid" and ex: "list_ex (\<lambda>x. conv_id x = cid) (conversations w)"
    using find_SomeD [OF found] by (auto simp: list_ex_iff)
  show ?thesis
    unfolding end_conversation_try_def
    using nf cid ex
    by (simp add: io_bind_def conversation_get_ok [OF nf found] conversation_save_def
        message_count_def fault_point_ok read_clock_def io_return_def Let_def advance_def
        split: list.splits)
qed

text \<open>
  Claim C8, at the rating \<open>0.0\<close>. The conversation is completed and the result says
  \<open>rating_saved = True\<close>, but the stored rating is still \<open>None\<close>: \<^verbatim>\<open>if user_rating:\<close> skips
  the assignment for a rating of zero, while \<^verbatim>\<open>user_rating is not None\<close> reports it as
  saved.
\<close>

theorem end_conversation_zero_rating_not_stored:
  fixes c w
  defines "c \<equiv> \<lparr> conv_id = 1, conv_user = \<lparr> user_id = 7, first_name = ''Ana'' \<rparr>,
                 conversation_type = ''general_fitness'', status = ''active'',
                 created_at = 0, ai_model_used = ''gpt-3.5-turbo'',
                 user_satisfaction_rating = None \<rparr>"
  defines "w \<equiv> \<lparr> conversations = [c], messages = [], contexts = [], user_profiles = [],
                 workout_sessions = [], cache = [], next_conversation_id = 2,
                 next_message_id = 1, now = 120000000, ticks = [], faults = [],
                 ai_available = False, ai_replies = [] \<rparr>"
  shows "fst (end_conversation 1 (Some 0) w) =
           Inr [(''conversation_ended'', PBool True), (''total_messages'', PInt 0),
                (''duration_minutes'', PFloat 2), (''rating_saved'', PBool True)] \<and>
         map status (conversations (snd (end_conversation 1 (Some 0) w))) = [''completed''] \<and>
         map user_satisfaction_rating (conversations (snd (end_conversation 1 (Some 0) w))) = [None]"
proof -
  have nf: "faults w = []" by (simp add: w_def)
  have f: "find (\<lambda>x. conv_id x = 1) (conversations w) = Some c" by (simp add: w_def c_def)
  note t = end_conversation_try_ok [OF nf f, of "Some 0"]
  have "end_conversation 1 (Some 0) w = end_conversation_try 1 (Some 0) w"
    unfolding end_conversation_def io_catch_def t Let_def by simp
  then show ?thesis
    unfolding t Let_def by (simp add: w_def c_def advance_def)
qed

text \<open>
  Claim C9, as the code has it. None of the three operations raises: each returns a
  result, whatever the collaborators do. When the \<^verbatim>\<open>try\<close> block of an operation raises,
  the result is a fixed dict that does not depend on the exception (apart from the
  \<open>not found\<close> results of \<^verbatim>\<open>process_user_message\<close> and \<^verbatim>\<open>end_conversation\<close>), and the world
  is the one the block left. The fixed dict of \<^verbatim>\<open>start_conversation\<close> and the one of
  \<^verbatim>\<open>process_user_message\<close> hold an error text and a suggestion to try again; the one of
  \<^verbatim>\<open>end_conversation\<close> holds the error text only.
\<close>

theorem orchestrator_never_raises:
  "(\<exists>r w'. start_conversation self u ctype initial_message w = (Inr r, w') \<and>
      (\<forall>e w''. start_conversation_try self u ctype initial_message w = (Inl e, w'') \<longrightarrow>
         r = start_error_result \<and> w' = w'')) \<and>
   (\<exists>r w'. process_user_message self cid message w = (Inr r, w') \<and>
      (\<forall>e w''. process_user_message_try self (now (advance w)) cid message (advance w) = (Inl e, w'') \<longrightarrow>
         r = (if e = ConversationDoesNotExist then not_found_result else processing_error_result) \<and>
         w' = w'')) \<and>
   (\<exists>r w'. end_conversation cid rating w = (Inr r, w') \<and>
      (\<forall>e w''. end_conversation_try cid rating w = (Inl e, w'') \<longrightarrow>
         r = (if e = ConversationDoesNotExist then end_not_found_result else end_error_result) \<and>
         w' = w'')) \<and>
   map fst start_error_result = [''error'', ''fallback''] \<and>
   dict_get start_error_result ''fallback'' = Some (PStr ''Tente novamente em alguns instantes'') \<and>
   map fst processing_error_result = [''error'', ''suggestion''] \<and>
   dict_get processing_error_result ''suggestion'' =
     Some (PStr ''Tente novamente ou reformule sua pergunta'') \<and>
   map fst end_error_result = [''error''] \<and>
   dict_get end_error_result ''error'' = Some (PStr ''Erro ao finalizar conversa'')"
proof -
  have 1: "\<exists>r w'. start_conversation self u ctype initial_message w = (Inr r, w') \<and>
      (\<forall>e w''. start_conversation_try self u ctype initial_message w = (Inl e, w'') \<longrightarrow>
         r = start_error_result \<and> w' = w'')"
  proof (cases "start_conversation_try self u ctype initial_message w")
    case (Pair x v)
    then show ?thesis
      by (cases x) (simp_all add: start_conversation_def io_catch_def io_return_def)
  qed
  have 2: "\<exists>r w'. process_user_message self cid message w = (Inr r, w') \<and>
      (\<forall>e w''. process_user_message_try self (now (advance w)) cid message (advance w) = (Inl e, w'') \<longrightarrow>
         r = (if e = ConversationDoesNotExist then not_found_result else processing_error_result) \<and>
         w' = w'')"
  proof (cases "process_user_message_try self (now (advance w)) cid message (advance w)")
    case (Pair x v)
    then show ?thesis
      by (cases x)
         (simp_all add: process_user_message_def io_bind_def read_clock_def io_catch_def
            io_return_def split: exn.splits)
  qed
  have 3: "\<exists>r w'. end_conversation cid rating w = (Inr r, w') \<and>
      (\<forall>e w''. end_conversation_try cid rating w = (Inl e, w'') \<longrightarrow>
         r = (if e = ConversationDoesNotExist then end_not_found_result else end_error_result) \<and>
         w' = w'')"
  proof (cases "end_conversation_try cid rating w")
    case (Pair x v)
    then show ?thesis
      by (cases x) (simp_all add: end_conversation_def io_catch_def io_return_def split: exn.splits)
  qed
  have 4: "map fst start_error_result = [''error'', ''fallback'']"
    "dict_get start_error_result ''fallback'' = Some (PStr ''Tente novamente em alguns instantes'')"
    "map fst processing_error_result = [''error'', ''suggestion'']"
    "dict_get processing_error_result ''suggestion'' =
       Some (PStr ''Tente novamente ou reformule sua pergunta'')"
    "map fst end_error_result = [''error'']"
    "dict_get end_error_result ''error'' = Some (PStr ''Erro ao finalizar conversa'')"
    by (simp_all add: start_error_result_def processing_error_result_def end_error_result_def
        dict_get_def)
  from 1 2 3 4 show ?thesis by blast
qed

text \<open>The theorem in a world whose store raises at the first call: the three \<^verbatim>\<open>try\<close>
  blocks raise and the three operations return their fixed results.\<close>

theorem orchestrator_never_raises_witness:
  fixes w self u
  defines "u \<equiv> \<lparr> user_id = 7, first_name = ''Ana'' \<rparr>"
  defines "self \<equiv> \<lparr> openai_model = None, str_hash = (\<lambda>s. int (length s)),
                    json_loads = (\<lambda>s. None) \<rparr>"
  defines "w \<equiv> \<lparr> conversations = [], messages = [], contexts = [], user_profiles = [],
                 workout_sessions = [], cache = [], next_conversation_id = 1,
                 next_message_id = 1, now = 0, ticks = [], faults = [True],
                 ai_available = False, ai_replies = [] \<rparr>"
  shows "start_conversation_try self u ''general_fitness'' None w = (Inl OtherException, w\<lparr>faults := []\<rparr>) \<and>
         start_conversation self u ''general_fitness'' None w = (Inr start_error_result, w\<lparr>faults := []\<rparr>) \<and>
         process_user_message_try self (now (advance w)) 1 ''Oi'' (advance w) =
           (Inl OtherException, w\<lparr>faults := []\<rparr>) \<and>
         process_user_message self 1 ''Oi'' w = (Inr processing_error_result, w\<lparr>faults := []\<rparr>) \<and>
         end_conversation_try 1 None w = (Inl OtherException, w\<lparr>faults := []\<rparr>) \<and>
         end_conversation 1 None w = (Inr end_error_result, w\<lparr>faults := []\<rparr>)"
proof -
  have adv: "advance w = w" by (simp add: advance_def w_def)
  have fp: "fault_point w = (Inl OtherException, w\<lparr>faults := []\<rparr>)"
    by (simp add: fault_point_def w_def)
  have t1: "start_conversation_try self u ''general_fitness'' None w = (Inl OtherException, w\<lparr>faults := []\<rparr>)"
    by (simp add: start_conversation_try_def io_bind_def read_clock_def adv
        conversation_filter_first_def fp)
  have t2: "process_user_message_try self (now (advance w)) 1 ''Oi'' (advance w) =
           (Inl OtherException, w\<lparr>faults := []\<rparr>)"
    by (simp add: process_user_message_try_def io_bind_def adv conversation_get_def fp)
  have t3: "end_conversation_try 1 None w = (Inl OtherException, w\<lparr>faults := []\<rparr>)"
    by (simp add: end_conversation_try_def io_bind_def conversation_get_def fp)
  from orchestrator_never_raises [of self u "''general_fitness''" None w 1 "''Oi''" None]
  obtain r1 w1 r2 w2 r3 w3 where
    a: "start_conversation self u ''general_fitness'' None w = (Inr r1, w1)"
       "\<forall>e w''. start_conversation_try self u ''general_fitness'' None w = (Inl e, w'') \<longrightarrow>
          r1 = start_error_result \<and> w1 = w''"
    and b: "process_user_message self 1 ''Oi'' w = (Inr r2, w2)"
       "\<forall>e w''. process_user_message_try self (now (advance w)) 1 ''Oi'' (advance w) = (Inl e, w'') \<longrightarrow>
          r2 = (if e = ConversationDoesNotExist then not_found_result else processing_error_result) \<and>
          w2 = w''"
    and c: "end_conversation 1 None w = (Inr r3, w3)"
       "\<forall>e w''. end_conversation_try 1 None w = (Inl e, w'') \<longrightarrow>
          r3 = (if e = ConversationDoesNotExist then end_not_found_result else end_error_result) \<and>
          w3 = w''"
    by blast
  from a(2) t1 have "r1 = start_error_result \<and> w1 = w\<lparr>faults := []\<rparr>" by blast
  moreover from b(2) t2 have "r2 = processing_error_result \<and> w2 = w\<lparr>faults := []\<rparr>" by auto
  moreover from c(2) t3 have "r3 = end_error_result \<and> w3 = w\<lparr>faults := []\<rparr>" by auto
  ultimately show ?thesis using a(1) b(1) c(1) t1 t2 t3 by simp
qed

text \<open>
  Against claim C9 as stated: when the store raises while \<^verbatim>\<open>end_conversation\<close> saves the
  conversation, the result is the error text alone; it has no suggestion to try again.
\<close>

theorem end_conversation_error_without_suggestion:
  fixes c w
  defines "c \<equiv> \<lparr> conv_id = 1, conv_user = \<lparr> user_id = 7, first_name = ''Ana'' \<rparr>,
                 conversation_type = ''general_fitness'', status = ''active'',
                 created_at = 0, ai_model_used = ''gpt-3.5-turbo'',
                 user_satisfaction_rating = None \<rparr>"
  defines "w \<equiv> \<lparr> conversations = [c], messages = [], contexts = [], user_profiles = [],
                 workout_sessions = [], cache = [], next_conversation_id = 2,
                 next_message_id = 1, now = 120000000, ticks = [], faults = [False, True],
                 ai_available = False, ai_replies = [] \<rparr>"
  shows "fst (end_conversation_try 1 (Some (9 / 2)) w) = Inl OtherException \<and>
         fst (end_conversation 1 (Some (9 / 2)) w) = Inr [(''error'', PStr ''Erro ao finalizar conversa'')] \<and>
         dict_get [(''error'', PStr ''Erro ao finalizar conversa'')] ''suggestion'' = None \<and>
         dict_get [(''error'', PStr ''Erro ao finalizar conversa'')] ''fallback'' = None"
proof -
  have t: "fst (end_conversation_try 1 (Some (9 / 2)) w) = Inl OtherException"
    by (simp add: end_conversation_try_def io_bind_def conversation_get_def fault_point_def
        conversation_save_def w_def c_def Let_def)
  then obtain v where "end_conversation_try 1 (Some (9 / 2)) w = (Inl OtherException, v)"
    by (cases "end_conversation_try 1 (Some (9 / 2)) w") simp
  then have "fst (end_conversation 1 (Some (9 / 2)) w) = Inr end_error_result"
    by (simp add: end_conversation_def io_catch_def io_return_def)
  with t show ?thesis by (simp add: end_error_result_def dict_get_def)
qed


section \<open>The rolling list of topics\<close>










lemma slot_values_frame:
  "contexts w' = contexts w \<Longrightarrow> slot_values w' cid ctype ckey = slot_values w cid ctype ckey"
  by (simp add: slot_values_def)














section \<open>The cache of intent analyses\<close>

lemma rule_based_truthy: "truthy_analysis (rule_based_intent_analysis message)"
  by (simp add: truthy_analysis_def empty_analysis_def rule_based_intent_analysis_def Let_def)

lemma cache_get_ok:
  "faults w = [] \<Longrightarrow>
   cache_get k w = (Inr (cache_lookup (cache w) k (now (advance w))), advance w)"
  by (simp add: cache_get_def io_bind_def fault_point_ok read_clock_def)

lemma cache_set_ok:
  "faults w = [] \<Longrightarrow>
   cache_set k payload ttl w =
     (Inr (), (advance w)\<lparr>cache := (k, payload, now (advance w) + seconds ttl) #
                                     filter (\<lambda>e. fst e \<noteq> k) (cache w)\<rparr>)"
  by (simp add: cache_set_def io_bind_def fault_point_ok read_clock_def)

text \<open>What the backend's next reply gives as an intent analysis.\<close>

lemma ai_intent_analysis_eq:
  "ai_intent_analysis self message c w =
     (Inr (case ai_replies w of
             Reply s # rs \<Rightarrow> (if s = [] then None else json_loads self s)
           | _ \<Rightarrow> None),
      w\<lparr>ai_replies := tl (ai_replies w)\<rparr>)"
  unfolding ai_intent_analysis_def io_catch_def io_bind_def make_openai_request_def
    io_return_def io_raise_def
  by (simp split: list.splits ai_reply.splits option.splits)

lemma analyze_message_intent_hit:
  assumes nf: "faults w = []"
    and entry: "map_of (cache w) (str_hash self (py_lower message)) = Some (p, expires)"
    and live: "now (advance w) < expires"
    and tr: "truthy_analysis p"
  shows "analyze_message_intent self message c w = (Inr p, advance w)"
proof -
  have "cache_lookup (cache w) (str_hash self (py_lower message)) (now (advance w)) = Some p"
    using entry live by (simp add: cache_lookup_def)
  then show ?thesis
    using tr
    by (simp add: analyze_message_intent_def Let_def io_catch_def io_bind_def
        cache_get_ok [OF nf] io_return_def)
qed

lemma analyze_message_intent_miss:
  assumes nf: "faults w = []"
    and miss: "\<forall>p. cache_lookup (cache w) (str_hash self (py_lower message)) (now (advance w)) = Some p
                 \<longrightarrow> \<not> truthy_analysis p"
  shows "analyze_message_intent self message c w =
     (let k = str_hash self (py_lower message);
          ai = (if ai_available w
                then (case ai_replies w of
                        Reply s # rs \<Rightarrow> (if s = [] then None else json_loads self s)
                      | _ \<Rightarrow> None)
                else None);
          w1 = (if ai_available w then (advance w)\<lparr>ai_replies := tl (ai_replies w)\<rparr> else advance w);
          r = (case ai of
                 Some a \<Rightarrow> if truthy_analysis a then a else rule_based_intent_analysis message
               | None \<Rightarrow> rule_based_intent_analysis message);
          ttl = (case ai of
                   Some a \<Rightarrow> if truthy_analysis a then 3600 else 1800
                 | None \<Rightarrow> 1800)
      in (Inr r, (advance w1)\<lparr>cache := (k, r, now (advance w1) + seconds ttl) #
                                          filter (\<lambda>e. fst e \<noteq> k) (cache w1)\<rparr>))"
proof -
  define k where "k = str_hash self (py_lower message)"
  define hit where "hit = cache_lookup (cache w) k (now (advance w))"
  have nohit: "\<not> (case hit of None \<Rightarrow> False | Some c \<Rightarrow> truthy_analysis c)"
    using miss by (auto simp: hit_def k_def split: option.splits)
  have g: "cache_get k w = (Inr hit, advance w)" by (simp add: cache_get_ok [OF nf] hit_def)
  have nf1: "faults (advance w) = []" using nf by simp
  have nf2: "faults ((advance w)\<lparr>ai_replies := rs\<rparr>) = []" for rs using nf by simp
  show ?thesis
    unfolding analyze_message_intent_def Let_def k_def [symmetric]
    using nohit
    by (simp add: io_catch_def io_bind_def g get_ai_available_def ai_intent_analysis_eq
          cache_set_ok [OF nf1] cache_set_ok [OF nf2] io_return_def
          split: option.splits)
qed

lemma now_advance_replies: "now (advance (v\<lparr>ai_replies := x\<rparr>)) = now (advance v)"
  by (simp add: advance_def split: list.splits)

text \<open>
  Claim C6. Let no call of the cache raise. A call of \<^verbatim>\<open>_analyze_message_intent\<close> that
  returns \<open>r1\<close> leaves an entry for the key of the lower-cased text whose payload is \<open>r1\<close>.
  A later call on a text with the same lower-cased content, made while the cache still
  holds this entry and before the entry expires, returns \<open>r1\<close> again and leaves the world
  as it was but for the clock: no request goes to the backend and nothing is written to
  the cache. Where the first call found no live non-empty entry, the entry it wrote
  expires 3600 seconds after the write when the backend was available and its reply
  parsed to a non-empty analysis (which is then the result), and 1800 seconds after the
  write when the result is the rule-based one.
\<close>

theorem analyze_message_intent_cached:
  fixes k miss
  assumes nf: "faults w = []"
    and first: "analyze_message_intent self m1 c1 w = (Inr r1, w1)"
    and same: "py_lower m2 = py_lower m1"
    and later: "cache w2 = cache w1" "faults w2 = []"
  defines "k \<equiv> str_hash self (py_lower m1)"
  defines "miss \<equiv> \<forall>p. cache_lookup (cache w) k (now (advance w)) = Some p \<longrightarrow> \<not> truthy_analysis p"
  shows "\<exists>expires. map_of (cache w1) k = Some (r1, expires) \<and>
          (now (advance w2) < expires \<longrightarrow>
             analyze_message_intent self m2 c2 w2 = (Inr r1, advance w2)) \<and>
          (miss \<and> ai_available w \<and> ai_replies w = Reply s # rs \<and> s \<noteq> [] \<and>
             json_loads self s = Some a \<and> truthy_analysis a \<longrightarrow>
             r1 = a \<and> expires = now (advance (advance w)) + seconds 3600) \<and>
          (miss \<and> (\<not> ai_available w \<or>
                   (\<forall>s rs. ai_replies w = Reply s # rs \<longrightarrow>
                      s = [] \<or> json_loads self s = None \<or> json_loads self s = Some empty_analysis)) \<longrightarrow>
             r1 = rule_based_intent_analysis m1 \<and> expires = now (advance (advance w)) + seconds 1800)"
proof -
  have again: "analyze_message_intent self m2 c2 w2 = (Inr r1, advance w2)"
    if "map_of (cache w1) k = Some (r1, expires)" "truthy_analysis r1" "now (advance w2) < expires"
    for expires
    using that later same
    by (intro analyze_message_intent_hit [where expires = expires]) (simp_all add: k_def)
  show ?thesis
  proof (cases miss)
    case False
    then obtain p where p: "cache_lookup (cache w) k (now (advance w)) = Some p" "truthy_analysis p"
      by (auto simp: miss_def)
    then obtain expires where e: "map_of (cache w) k = Some (p, expires)" "now (advance w) < expires"
      by (auto simp: cache_lookup_def split: option.splits if_splits)
    from analyze_message_intent_hit [OF nf e(1) [unfolded k_def] e(2) p(2), of c1] first
    have r: "r1 = p" "w1 = advance w" by simp_all
    with e have "map_of (cache w1) k = Some (r1, expires)" by simp
    with again [of expires] p(2) r(1) False show ?thesis by blast
  next
    case True
    define ai where "ai = (if ai_available w
                then (case ai_replies w of
                        Reply s # rs \<Rightarrow> (if s = [] then None else json_loads self s)
                      | _ \<Rightarrow> None)
                else None)"
    define ttl :: int where "ttl = (case ai of
                   Some a \<Rightarrow> if truthy_analysis a then 3600 else 1800
                 | None \<Rightarrow> 1800)"
    define r where "r = (case ai of
                 Some a \<Rightarrow> if truthy_analysis a then a else rule_based_intent_analysis m1
               | None \<Rightarrow> rule_based_intent_analysis m1)"
    define expires where "expires = now (advance (advance w)) + seconds ttl"
    from analyze_message_intent_miss [OF nf True [unfolded miss_def k_def], of c1] first
    have r1: "r1 = r" and c1: "map_of (cache w1) k = Some (r, expires)"
      by (auto simp: Let_def r_def ai_def ttl_def expires_def k_def now_advance_replies)
    have tr: "truthy_analysis r"
      by (simp add: r_def rule_based_truthy split: option.splits)
    have ai_case: "r1 = a \<and> expires = now (advance (advance w)) + seconds 3600"
      if "ai_available w" "ai_replies w = Reply s # rs" "s \<noteq> []" "json_loads self s = Some a"
        "truthy_analysis a"
      using that by (simp add: r1 r_def ai_def ttl_def expires_def)
    have rule_case: "r1 = rule_based_intent_analysis m1 \<and>
                     expires = now (advance (advance w)) + seconds 1800"
      if "\<not> ai_available w \<or>
          (\<forall>s rs. ai_replies w = Reply s # rs \<longrightarrow>
             s = [] \<or> json_loads self s = None \<or> json_loads self s = Some empty_analysis)"
    proof -
      from that have "ai = None \<or> ai = Some empty_analysis"
        by (auto simp: ai_def split: list.splits ai_reply.splits)
      then show ?thesis
        by (auto simp: r1 r_def ttl_def expires_def truthy_analysis_def)
    qed
    from c1 r1 have "map_of (cache w1) k = Some (r1, expires)" by simp
    with again [of expires] tr r1 ai_case rule_case show ?thesis by blast
  qed
qed

text \<open>The theorem with an empty cache and an unavailable backend: the message is
  classified by the rules, the entry lives for 1800 seconds, and the same words in
  capitals a minute later get the cached analysis.\<close>

theorem analyze_message_intent_cached_witness:
  fixes self c w w1 w2 m1 m2
  defines "self \<equiv> \<lparr> openai_model = None, str_hash = (\<lambda>s. int (length s)),
                    json_loads = (\<lambda>s. None) \<rparr>"
  defines "c \<equiv> \<lparr> conv_id = 1, conv_user = \<lparr> user_id = 7, first_name = ''Ana'' \<rparr>,
                 conversation_type = ''general_fitness'', status = ''active'',
                 created_at = 0, ai_model_used = ''gpt-3.5-turbo'',
                 user_satisfaction_rating = None \<rparr>"
  defines "w \<equiv> \<lparr> conversations = [c], messages = [], contexts = [], user_profiles = [],
                 workout_sessions = [], cache = [], next_conversation_id = 2,
                 next_message_id = 1, now = 0, ticks = [5, 5], faults = [],
                 ai_available = False, ai_replies = [] \<rparr>"
  defines "m1 \<equiv> ''Sinto muita dor no joelho''"
  defines "m2 \<equiv> ''SINTO MUITA DOR NO JOELHO''"
  defines "w1 \<equiv> snd (analyze_message_intent self m1 c w)"
  defines "w2 \<equiv> w1\<lparr> ticks := [60000000] \<rparr>"
  shows "faults w = [] \<and> py_lower m2 = py_lower m1 \<and> m2 \<noteq> m1 \<and>
         cache w2 = cache w1 \<and> faults w2 = [] \<and>
         analyze_message_intent self m1 c w = (Inr (rule_based_intent_analysis m1), w1) \<and>
         map_of (cache w1) (str_hash self (py_lower m1)) =
           Some (rule_based_intent_analysis m1, 10 + seconds 1800) \<and>
         now (advance w2) < 10 + seconds 1800 \<and>
         analyze_message_intent self m2 c w2 = (Inr (rule_based_intent_analysis m1), advance w2)"
proof -
  have nf: "faults w = []" by (simp add: w_def)
  have same: "py_lower m2 = py_lower m1" unfolding m1_def m2_def by code_simp
  have diff: "m2 \<noteq> m1" by (simp add: m1_def m2_def)
  have miss: "\<forall>p. cache_lookup (cache w) (str_hash self (py_lower m1)) (now (advance w)) = Some p
                 \<longrightarrow> \<not> truthy_analysis p"
    by (simp add: cache_lookup_def w_def)
  have na: "\<not> ai_available w" by (simp add: w_def)
  have run: "analyze_message_intent self m1 c w =
      (Inr (rule_based_intent_analysis m1),
       (advance (advance w))\<lparr>cache := (str_hash self (py_lower m1), rule_based_intent_analysis m1,
                                         now (advance (advance w)) + seconds 1800) #
                                        filter (\<lambda>e. fst e \<noteq> str_hash self (py_lower m1)) (cache w)\<rparr>)"
    using analyze_message_intent_miss [OF nf miss, of c] na by (simp add: Let_def)
  then have first: "analyze_message_intent self m1 c w = (Inr (rule_based_intent_analysis m1), w1)"
    by (simp add: w1_def)
  have w1_now: "now w1 = now (advance (advance w))" and w1_faults: "faults w1 = []"
    using nf by (simp_all add: w1_def run)
  have adv2: "now (advance (advance w)) = 10" by (simp add: w_def advance_def)
  have later: "cache w2 = cache w1" "faults w2 = []" by (simp_all add: w2_def w1_faults)
  have "now (advance w2) = now w1 + 60000000" by (simp add: w2_def advance_def)
  then have t2: "now (advance w2) < 10 + seconds 1800"
    by (simp add: w1_now adv2 seconds_def)
  from analyze_message_intent_cached [OF nf first same later, of c]
  obtain expires where
    e: "map_of (cache w1) (str_hash self (py_lower m1)) = Some (rule_based_intent_analysis m1, expires)"
    and hit: "now (advance w2) < expires \<longrightarrow>
             analyze_message_intent self m2 c w2 = (Inr (rule_based_intent_analysis m1), advance w2)"
    and rules: "(\<forall>p. cache_lookup (cache w) (str_hash self (py_lower m1)) (now (advance w)) = Some p
                   \<longrightarrow> \<not> truthy_analysis p) \<and>
                (\<not> ai_available w \<or>
                   (\<forall>s rs. ai_replies w = Reply s # rs \<longrightarrow>
                      s = [] \<or> json_loads self s = None \<or> json_loads self s = Some empty_analysis)) \<longrightarrow>
             rule_based_intent_analysis m1 = rule_based_intent_analysis m1 \<and>
             expires = now (advance (advance w)) + seconds 1800"
    by blast
  from rules miss na have r: "expires = 10 + seconds 1800"
    by (simp add: adv2)
  with hit t2 have "analyze_message_intent self m2 c w2 = (Inr (rule_based_intent_analysis m1), advance w2)"
    by simp
  with nf same diff later first e r t2 show ?thesis by simp
qed


section \<open>A message processed without a failing collaborator\<close>









section \<open>The two success branches\<close>





section \<open>The fallback responder\<close>












section \<open>Starting a conversation with an initial message\<close>





end
